theory Spec2Isabelle
  imports Complex_Main "HOL-Library.Sublist"
begin

section \<open>The NL5 DLL client: data model\<close>

text \<open>
  The class \<open>NL5_dll\<close> of \<open>nl5_dll.py\<close> wraps the exported entry points of the NL5
  simulation library. The library itself is not part of the repository, so it is a
  parameter of every definition below: an \<open>engine\<close> answers each foreign call, and its
  answer may depend on all the calls made before (the library is stateful).

  A foreign call is one entry into the library through a thunk \<open>self.NL5_...\<close> at the
  bottom of the class, with the arguments as the library receives them. Strings are byte
  strings (\<open>encode('utf-8')\<close> is the identity on them), C doubles are read as reals
  (\<open>abs\<close>, the arithmetic the class does on them outside \<open>get_data_slice\<close>, is exact
  on doubles), Python integers are \<open>int\<close>. Where a thunk declares an argument as
  \<open>ct.c_int\<close>, ctypes hands over the Python integer wrapped into the 32-bit signed range
  (\<open>c_int\<close> below); the handles, which come from the library as C ints, are passed back
  as they came.
\<close>

datatype fcall =
    NL5_GetError
  | NL5_GetInfo
  | NL5_GetLicense string
  | NL5_Open string
  | NL5_Close int
  | NL5_Save int
  | NL5_SaveAs int string
  | NL5_GetValue int string
  | NL5_SetValue int string real
  | NL5_GetText int string int
  | NL5_SetText int string string
  | NL5_GetParam int string
  | NL5_GetParamValue int int
  | NL5_SetParamValue int int real
  | NL5_GetParamText int int int
  | NL5_SetParamText int int string
  | NL5_GetTrace int string
  | NL5_AddVTrace int string
  | NL5_AddITrace int string
  | NL5_AddPTrace int string
  | NL5_AddVarTrace int string
  | NL5_AddFuncTrace int string
  | NL5_DeleteTrace int int
  | NL5_SetStep int real
  | NL5_SetTimeout int int
  | NL5_GetSimulationTime int
  | NL5_Start int
  | NL5_Simulate int real
  | NL5_SimulateInterval int real
  | NL5_SimulateStep int
  | NL5_SaveIC int
  | NL5_GetDataSize int int
  | NL5_GetDataAt int int int
  | NL5_GetLastData int int
  | NL5_GetData int int real
  | NL5_DeleteOldData int
  | NL5_SaveData int string
  | NL5_GetInput int string
  | NL5_SetInputValue int int real
  | NL5_SetInputLogicalValue int int int
  | NL5_GetOutput int string
  | NL5_GetOutputValue int int
  | NL5_GetOutputLogicalValue int int
  | NL5_CalcAC int
  | NL5_GetACTrace int string
  | NL5_GetACDataSize int int
  | NL5_GetACDataAt int int int
  | NL5_SaveACData int string

text \<open>
  What a foreign call leaves behind: the C return value \<open>ret\<close> (a status, a handle or a
  size), the contents of the up to three \<open>c_double\<close> output cells after the call
  (\<open>out1\<close>, \<open>out2\<close>, \<open>out3\<close>, in argument order), and the text of the character buffer
  or of the returned \<open>char *\<close> (\<open>buf\<close>).
\<close>

record reply =
  ret :: int
  out1 :: real
  out2 :: real
  out3 :: real
  buf :: string

type_synonym engine = "fcall list \<Rightarrow> fcall \<Rightarrow> reply"

text \<open>
  The client object: \<open>self.path\<close>, \<open>self._ncir\<close> (\<open>-1\<close> when no document is open) and,
  as a ghost field, the foreign calls performed so far, oldest first.
\<close>

record NL5_dll =
  path :: string
  ncir :: int
  calls :: "fcall list"

text \<open>
  The exception classes of the module, each with its message, and the exceptions the
  Python run time raises by itself in some methods.
\<close>

datatype pyerror = ValueError | ArgumentError | ZeroDivisionError

datatype exn =
    NL5OpenException string
  | NL5ParamException string
  | NL5TraceException string
  | NL5ValueException string
  | NL5SaveException string
  | NL5StartException string
  | NL5DeleteException string
  | NL5LicenseException string
  | NL5NotImplementedException string
  | PythonError pyerror

text \<open>
  What the class uses of the standard library and of numpy, none of it in the
  repository: \<open>os.getcwd()\<close>, \<open>os.path.abspath\<close>, \<open>os.path.join\<close>, the formatting of a
  float inside an f-string, and \<open>numpy.log10\<close>.
\<close>

record host =
  getcwd :: string
  abspath :: "string \<Rightarrow> string"
  join :: "string \<Rightarrow> string \<Rightarrow> string"
  repr :: "real \<Rightarrow> string"
  log10 :: "real \<Rightarrow> real"

text \<open>One foreign call: the engine answers, the call is recorded.\<close>

definition foreign :: "engine \<Rightarrow> fcall \<Rightarrow> NL5_dll \<Rightarrow> reply \<times> NL5_dll" where
  "foreign e c w = (e (calls w) c, w\<lparr>calls := calls w @ [c]\<rparr>)"

text \<open>
  A Python integer as a \<open>ct.c_int\<close> argument receives it: ctypes checks no overflow and
  keeps the low 32 bits, read as a signed number.
\<close>

definition c_int :: "int \<Rightarrow> int" where
  "c_int n = (n + 2147483648) mod 4294967296 - 2147483648"

text \<open>\<open>s.endswith(x)\<close>\<close>

definition endswith :: "string \<Rightarrow> string \<Rightarrow> bool" where
  "endswith s x = (length x \<le> length s \<and> drop (length s - length x) s = x)"

abbreviation not_opened :: string where
  "not_opened \<equiv> ''Circuit file not opened or not valid. Try to use open() function first!''"

abbreviation not_opened_closing :: string where
  "not_opened_closing \<equiv> ''Error closing NL5 circuit, not opened.''"

section \<open>Life cycle\<close>

text \<open>\<open>__init__\<close>, after the library has been loaded.\<close>

definition init :: "host \<Rightarrow> string \<Rightarrow> NL5_dll" where
  "init h pth = \<lparr>path = abspath h pth, ncir = - 1, calls = []\<rparr>"

definition get_error :: "engine \<Rightarrow> NL5_dll \<Rightarrow> (exn + string) \<times> NL5_dll" where
  "get_error e w = (case foreign e NL5_GetError w of (r, w') \<Rightarrow> (Inr (buf r), w'))"

definition get_info :: "engine \<Rightarrow> NL5_dll \<Rightarrow> (exn + string) \<times> NL5_dll" where
  "get_info e w = (case foreign e NL5_GetInfo w of (r, w') \<Rightarrow> (Inr (buf r), w'))"

definition get_license :: "engine \<Rightarrow> host \<Rightarrow> string \<Rightarrow> string \<Rightarrow> NL5_dll \<Rightarrow> (exn + bool) \<times> NL5_dll" where
  "get_license e h name pth w =
     (let dir = (if pth \<noteq> [] then abspath h pth else path w);
          name' = (if \<not> endswith name ''.nll'' then name @ ''.nll'' else name);
          lic_file = join h dir name'
      in case foreign e (NL5_GetLicense lic_file) w of (r, w') \<Rightarrow>
           if ret r < 0
           then (Inl (NL5LicenseException ''License does not have DLL option activated.''), w')
           else (Inr (\<not> (ret r \<noteq> 0)), w'))"

definition open' :: "engine \<Rightarrow> host \<Rightarrow> string \<Rightarrow> string \<Rightarrow> NL5_dll \<Rightarrow> (exn + unit) \<times> NL5_dll" where
  "open' e h name pth w =
     (let w1 = (if 0 \<le> ncir w
                then (case foreign e (NL5_Close (ncir w)) w of (r, w') \<Rightarrow> w'\<lparr>ncir := - 1\<rparr>)
                else w);
          dir = (if pth \<noteq> [] then abspath h pth else getcwd h);
          name' = (if \<not> endswith name ''.nl5'' then name @ ''.nl5'' else name);
          cir_file = join h dir name'
      in case foreign e (NL5_Open cir_file) w1 of (r, w2) \<Rightarrow>
           if 0 \<le> ret r then (Inr (), w2\<lparr>ncir := ret r\<rparr>)
           else (Inl (NL5OpenException ''Error opening NL5 circuit''), w2))"

definition close :: "engine \<Rightarrow> NL5_dll \<Rightarrow> (exn + unit) \<times> NL5_dll" where
  "close e w =
     (if 0 \<le> ncir w
      then (case foreign e (NL5_Close (ncir w)) w of (r, w') \<Rightarrow> (Inr (), w'))
      else (Inl (NL5OpenException not_opened_closing), w))"

definition save :: "engine \<Rightarrow> NL5_dll \<Rightarrow> (exn + unit) \<times> NL5_dll" where
  "save e w =
     (if 0 \<le> ncir w
      then (case foreign e (NL5_Save (ncir w)) w of (r, w') \<Rightarrow>
              if ret r < 0
              then (Inl (NL5SaveException ''Error trying to save the schematic circuit file.''), w')
              else (Inr (), w'))
      else (Inl (NL5OpenException not_opened_closing), w))"

definition save_as :: "engine \<Rightarrow> host \<Rightarrow> string \<Rightarrow> string \<Rightarrow> NL5_dll \<Rightarrow> (exn + unit) \<times> NL5_dll" where
  "save_as e h name pth w =
     (let dir = (if pth \<noteq> [] then abspath h pth else getcwd h);
          name' = (if \<not> endswith name ''.nl5'' then name @ ''.nl5'' else name);
          cir_file = join h dir name'
      in if 0 \<le> ncir w
         then (case foreign e (NL5_SaveAs (ncir w) cir_file) w of (r, w') \<Rightarrow>
                 if ret r < 0
                 then (Inl (NL5SaveException
                         (''Error trying to save the schematic circuit file as '' @ name' @ ''.'')), w')
                 else (Inr (), w'))
         else (Inl (NL5OpenException not_opened_closing), w))"

section \<open>Component parameters\<close>

definition get_value :: "engine \<Rightarrow> string \<Rightarrow> NL5_dll \<Rightarrow> (exn + real) \<times> NL5_dll" where
  "get_value e name w =
     (if 0 \<le> ncir w
      then (case foreign e (NL5_GetValue (ncir w) name) w of (r, w') \<Rightarrow>
              if ret r < 0
              then (Inl (NL5ValueException
                      (''Parameter '' @ name @ '' not found or parameter type not supported.'')), w')
              else (Inr (out1 r), w'))
      else (Inl (NL5OpenException not_opened), w))"

definition set_value :: "engine \<Rightarrow> string \<Rightarrow> real \<Rightarrow> NL5_dll \<Rightarrow> (exn + unit) \<times> NL5_dll" where
  "set_value e name v w =
     (if 0 \<le> ncir w
      then (case foreign e (NL5_SetValue (ncir w) name v) w of (r, w') \<Rightarrow>
              if ret r < 0
              then (Inl (NL5ValueException
                      (''Parameter '' @ name @ '' not found or parameter type not supported.'')), w')
              else (Inr (), w'))
      else (Inl (NL5OpenException not_opened), w))"

text \<open>\<open>ct.create_string_buffer(buf_size)\<close> refuses a negative size with a \<open>ValueError\<close>.\<close>

definition get_text :: "engine \<Rightarrow> string \<Rightarrow> int \<Rightarrow> NL5_dll \<Rightarrow> (exn + string) \<times> NL5_dll" where
  "get_text e name buf_size w =
     (if 0 \<le> ncir w
      then if buf_size < 0 then (Inl (PythonError ValueError), w)
           else (case foreign e (NL5_GetText (ncir w) name (c_int buf_size)) w of (r, w') \<Rightarrow>
              if ret r < 0
              then (Inl (NL5ValueException
                      (''Parameter '' @ name @ '' not found or parameter type not supported.'')), w')
              else (Inr (buf r), w'))
      else (Inl (NL5OpenException not_opened), w))"

definition set_text :: "engine \<Rightarrow> string \<Rightarrow> string \<Rightarrow> NL5_dll \<Rightarrow> (exn + unit) \<times> NL5_dll" where
  "set_text e name t w =
     (if 0 \<le> ncir w
      then (case foreign e (NL5_SetText (ncir w) name t) w of (r, w') \<Rightarrow>
              if ret r < 0
              then (Inl (NL5ValueException
                      (''Parameter '' @ name @ '' not found or parameter type not supported.'')), w')
              else (Inr (), w'))
      else (Inl (NL5OpenException not_opened), w))"

definition get_parameter_value :: "engine \<Rightarrow> string \<Rightarrow> NL5_dll \<Rightarrow> (exn + real) \<times> NL5_dll" where
  "get_parameter_value e name w =
     (if 0 \<le> ncir w
      then (case foreign e (NL5_GetParam (ncir w) name) w of (p, w1) \<Rightarrow>
              if 0 \<le> ret p
              then (case foreign e (NL5_GetParamValue (ncir w) (ret p)) w1 of (r, w2) \<Rightarrow>
                      if ret r < 0
                      then (Inl (NL5ValueException
                              (''Parameter '' @ name @ '' not found or parameter type not supported.'')), w2)
                      else (Inr (out1 r), w2))
              else (Inl (NL5ParamException
                      (''Parameter '' @ name @ '' does not exist in circuit.'')), w1))
      else (Inl (NL5OpenException not_opened), w))"

definition set_parameter_value :: "engine \<Rightarrow> string \<Rightarrow> real \<Rightarrow> NL5_dll \<Rightarrow> (exn + unit) \<times> NL5_dll" where
  "set_parameter_value e name v w =
     (if 0 \<le> ncir w
      then (case foreign e (NL5_GetParam (ncir w) name) w of (p, w1) \<Rightarrow>
              if 0 \<le> ret p
              then (case foreign e (NL5_SetParamValue (ncir w) (ret p) v) w1 of (r, w2) \<Rightarrow>
                      if ret r < 0
                      then (Inl (NL5ValueException
                              (''Parameter '' @ name @ '' not found or parameter type not supported.'')), w2)
                      else (Inr (), w2))
              else (Inl (NL5ParamException
                      (''Parameter '' @ name @ '' does not exist in circuit.'')), w1))
      else (Inl (NL5OpenException not_opened), w))"

definition get_parameter_text :: "engine \<Rightarrow> string \<Rightarrow> int \<Rightarrow> NL5_dll \<Rightarrow> (exn + string) \<times> NL5_dll" where
  "get_parameter_text e name buf_size w =
     (if 0 \<le> ncir w
      then (case foreign e (NL5_GetParam (ncir w) name) w of (p, w1) \<Rightarrow>
              if 0 \<le> ret p
              then if buf_size < 0 then (Inl (PythonError ValueError), w1)
                   else (case foreign e (NL5_GetParamText (ncir w) (ret p) (c_int buf_size)) w1 of (r, w2) \<Rightarrow>
                      if ret r < 0
                      then (Inl (NL5ValueException
                              (''Parameter '' @ name @ '' not found or parameter type not supported.'')), w2)
                      else (Inr (buf r), w2))
              else (Inl (NL5ParamException
                      (''Parameter '' @ name @ '' does not exist in circuit.'')), w1))
      else (Inl (NL5OpenException not_opened), w))"

definition set_parameter_text :: "engine \<Rightarrow> string \<Rightarrow> string \<Rightarrow> NL5_dll \<Rightarrow> (exn + unit) \<times> NL5_dll" where
  "set_parameter_text e name t w =
     (if 0 \<le> ncir w
      then (case foreign e (NL5_GetParam (ncir w) name) w of (p, w1) \<Rightarrow>
              if 0 \<le> ret p
              then (case foreign e (NL5_SetParamText (ncir w) (ret p) t) w1 of (r, w2) \<Rightarrow>
                      if ret r < 0
                      then (Inl (NL5ValueException
                              (''Parameter '' @ name @ '' not found or parameter type not supported.'')), w2)
                      else (Inr (), w2))
              else (Inl (NL5ParamException
                      (''Parameter '' @ name @ '' does not exist in circuit.'')), w1))
      else (Inl (NL5OpenException not_opened), w))"

section \<open>Traces, inputs and outputs\<close>

definition add_voltage_trace :: "engine \<Rightarrow> string \<Rightarrow> NL5_dll \<Rightarrow> (exn + unit) \<times> NL5_dll" where
  "add_voltage_trace e name w =
     (if 0 \<le> ncir w
      then (case foreign e (NL5_AddVTrace (ncir w) name) w of (r, w') \<Rightarrow>
              if ret r < 0
              then (Inl (NL5TraceException
                      (''Problem trying to add voltage trace for component '' @ name @ ''.'')), w')
              else (Inr (), w'))
      else (Inl (NL5OpenException not_opened), w))"

definition add_current_trace :: "engine \<Rightarrow> string \<Rightarrow> NL5_dll \<Rightarrow> (exn + unit) \<times> NL5_dll" where
  "add_current_trace e name w =
     (if 0 \<le> ncir w
      then (case foreign e (NL5_AddITrace (ncir w) name) w of (r, w') \<Rightarrow>
              if ret r < 0
              then (Inl (NL5TraceException
                      (''Problem trying to add current trace for component '' @ name @ ''.'')), w')
              else (Inr (), w'))
      else (Inl (NL5OpenException not_opened), w))"

definition add_power_trace :: "engine \<Rightarrow> string \<Rightarrow> NL5_dll \<Rightarrow> (exn + unit) \<times> NL5_dll" where
  "add_power_trace e name w =
     (if 0 \<le> ncir w
      then (case foreign e (NL5_AddPTrace (ncir w) name) w of (r, w') \<Rightarrow>
              if ret r < 0
              then (Inl (NL5TraceException
                      (''Problem trying to add power trace for component '' @ name @ ''.'')), w')
              else (Inr (), w'))
      else (Inl (NL5OpenException not_opened), w))"

definition add_variable_trace :: "engine \<Rightarrow> string \<Rightarrow> NL5_dll \<Rightarrow> (exn + unit) \<times> NL5_dll" where
  "add_variable_trace e name w =
     (if 0 \<le> ncir w
      then (case foreign e (NL5_AddVarTrace (ncir w) name) w of (r, w') \<Rightarrow>
              if ret r < 0
              then (Inl (NL5TraceException
                      (''Problem trying to add trace for variable '' @ name @ ''.'')), w')
              else (Inr (), w'))
      else (Inl (NL5OpenException not_opened), w))"

definition add_function_trace :: "engine \<Rightarrow> string \<Rightarrow> NL5_dll \<Rightarrow> (exn + unit) \<times> NL5_dll" where
  "add_function_trace e t w =
     (if 0 \<le> ncir w
      then (case foreign e (NL5_AddFuncTrace (ncir w) t) w of (r, w') \<Rightarrow>
              if ret r < 0
              then (Inl (NL5TraceException
                      (''Problem trying to add function trace '' @ t @ ''.'')), w')
              else (Inr (), w'))
      else (Inl (NL5OpenException not_opened), w))"

definition delete_trace :: "engine \<Rightarrow> string \<Rightarrow> NL5_dll \<Rightarrow> (exn + unit) \<times> NL5_dll" where
  "delete_trace e name w =
     (if 0 \<le> ncir w
      then (case foreign e (NL5_GetTrace (ncir w) name) w of (p, w1) \<Rightarrow>
              if 0 \<le> ret p
              then (case foreign e (NL5_DeleteTrace (ncir w) (ret p)) w1 of (r, w2) \<Rightarrow>
                      if ret r < 0
                      then (Inl (NL5ValueException
                              (''Problem trying to delete trace '' @ name @ ''.'')), w2)
                      else (Inr (), w2))
              else (Inl (NL5TraceException
                      (''Trace '' @ name @ '' does not exist in circuit.'')), w1))
      else (Inl (NL5OpenException not_opened), w))"

text \<open>
  In \<open>set_input_value\<close> the parameter \<open>v\<close> is rebound to a fresh \<open>ct.c_double()\<close>, whose
  value is \<open>0.0\<close>, before the foreign call.
\<close>

definition set_input_value :: "engine \<Rightarrow> string \<Rightarrow> real \<Rightarrow> NL5_dll \<Rightarrow> (exn + unit) \<times> NL5_dll" where
  "set_input_value e name v w =
     (if 0 \<le> ncir w
      then (case foreign e (NL5_GetInput (ncir w) name) w of (p, w1) \<Rightarrow>
              if 0 \<le> ret p
              then (let v' = (0::real)
                    in case foreign e (NL5_SetInputValue (ncir w) (ret p) v') w1 of (r, w2) \<Rightarrow>
                      if ret r < 0
                      then (Inl (NL5ValueException (''Input '' @ name @ '' not valid.'')), w2)
                      else (Inr (), w2))
              else (Inl (NL5TraceException
                      (''Trace '' @ name @ '' does not exist in circuit.'')), w1))
      else (Inl (NL5OpenException not_opened), w))"

text \<open>
  In \<open>set_input_logical_value\<close> the parameter is rebound in the same way and then handed to
  \<open>int(...)\<close>, which rejects a \<open>c_double\<close> object (a \<open>ValueError\<close> in CPython 3.11):
  \<open>NL5_SetInputLogicalValue\<close> is never reached.
\<close>

definition set_input_logical_value :: "engine \<Rightarrow> string \<Rightarrow> bool \<Rightarrow> NL5_dll \<Rightarrow> (exn + unit) \<times> NL5_dll" where
  "set_input_logical_value e name v w =
     (if 0 \<le> ncir w
      then (case foreign e (NL5_GetInput (ncir w) name) w of (p, w1) \<Rightarrow>
              if 0 \<le> ret p
              then (Inl (PythonError ValueError), w1)
              else (Inl (NL5TraceException
                      (''Trace '' @ name @ '' does not exist in circuit.'')), w1))
      else (Inl (NL5OpenException not_opened), w))"

definition get_output_value :: "engine \<Rightarrow> string \<Rightarrow> NL5_dll \<Rightarrow> (exn + real) \<times> NL5_dll" where
  "get_output_value e name w =
     (if 0 \<le> ncir w
      then (case foreign e (NL5_GetOutput (ncir w) name) w of (p, w1) \<Rightarrow>
              if 0 \<le> ret p
              then (case foreign e (NL5_GetOutputValue (ncir w) (ret p)) w1 of (r, w2) \<Rightarrow>
                      if ret r < 0
                      then (Inl (NL5ValueException (''Output '' @ name @ '' not valid.'')), w2)
                      else (Inr (out1 r), w2))
              else (Inl (NL5TraceException
                      (''Trace '' @ name @ '' does not exist in circuit.'')), w1))
      else (Inl (NL5OpenException not_opened), w))"

text \<open>
  In \<open>get_output_logical_value\<close> a \<open>c_double\<close> cell is handed to a thunk whose third
  argument is declared \<open>POINTER(c_int)\<close>: ctypes refuses the argument with an
  \<open>ArgumentError\<close> before the library is entered.
\<close>

definition get_output_logical_value :: "engine \<Rightarrow> string \<Rightarrow> NL5_dll \<Rightarrow> (exn + bool) \<times> NL5_dll" where
  "get_output_logical_value e name w =
     (if 0 \<le> ncir w
      then (case foreign e (NL5_GetOutput (ncir w) name) w of (p, w1) \<Rightarrow>
              if 0 \<le> ret p
              then (Inl (PythonError ArgumentError), w1)
              else (Inl (NL5TraceException
                      (''Trace '' @ name @ '' does not exist in circuit.'')), w1))
      else (Inl (NL5OpenException not_opened), w))"

section \<open>Simulation control\<close>

definition set_step :: "engine \<Rightarrow> real \<Rightarrow> NL5_dll \<Rightarrow> (exn + unit) \<times> NL5_dll" where
  "set_step e step w =
     (if 0 \<le> ncir w
      then (case foreign e (NL5_SetStep (ncir w) \<bar>step\<bar>) w of (r, w') \<Rightarrow>
              if ret r < 0
              then (Inl (NL5ValueException ''Step not valid.''), w')
              else (Inr (), w'))
      else (Inl (NL5OpenException not_opened), w))"

definition set_timeout :: "engine \<Rightarrow> int \<Rightarrow> NL5_dll \<Rightarrow> (exn + unit) \<times> NL5_dll" where
  "set_timeout e t w =
     (if 0 \<le> ncir w
      then (case foreign e (NL5_SetTimeout (ncir w) (c_int \<bar>t\<bar>)) w of (r, w') \<Rightarrow>
              if ret r < 0
              then (Inl (NL5ValueException ''Timeout not valid.''), w')
              else (Inr (), w'))
      else (Inl (NL5OpenException not_opened), w))"

definition get_simulation_time :: "engine \<Rightarrow> NL5_dll \<Rightarrow> (exn + real) \<times> NL5_dll" where
  "get_simulation_time e w =
     (if 0 \<le> ncir w
      then (case foreign e (NL5_GetSimulationTime (ncir w)) w of (r, w') \<Rightarrow>
              if ret r < 0
              then (Inl (NL5ValueException ''Error when reading simulation time.''), w')
              else (Inr (out1 r), w'))
      else (Inl (NL5OpenException not_opened), w))"

definition start :: "engine \<Rightarrow> NL5_dll \<Rightarrow> (exn + unit) \<times> NL5_dll" where
  "start e w =
     (if 0 \<le> ncir w
      then (case foreign e (NL5_Start (ncir w)) w of (r, w') \<Rightarrow>
              if ret r < 0
              then (Inl (NL5StartException ''Error trying to start simulation.''), w')
              else (Inr (), w'))
      else (Inl (NL5OpenException not_opened), w))"

text \<open>The f-string field \<open>{interval=}\<close> prints \<open>interval=\<close> and the argument as it was given.\<close>

definition simulate :: "engine \<Rightarrow> host \<Rightarrow> real \<Rightarrow> NL5_dll \<Rightarrow> (exn + unit) \<times> NL5_dll" where
  "simulate e h interval w =
     (if 0 \<le> ncir w
      then (case foreign e (NL5_Simulate (ncir w) \<bar>interval\<bar>) w of (r, w') \<Rightarrow>
              if ret r < 0
              then (Inl (NL5StartException
                      (''Error trying to start simulation with interval='' @ repr h interval @ ''.'')), w')
              else (Inr (), w'))
      else (Inl (NL5OpenException not_opened), w))"

definition simulate_interval :: "engine \<Rightarrow> host \<Rightarrow> real \<Rightarrow> NL5_dll \<Rightarrow> (exn + unit) \<times> NL5_dll" where
  "simulate_interval e h interval w =
     (if 0 \<le> ncir w
      then (case foreign e (NL5_SimulateInterval (ncir w) \<bar>interval\<bar>) w of (r, w') \<Rightarrow>
              if ret r < 0
              then (Inl (NL5StartException
                      (''Error trying to start simulation with interval='' @ repr h interval @ ''.'')), w')
              else (Inr (), w'))
      else (Inl (NL5OpenException not_opened), w))"

definition simulate_step :: "engine \<Rightarrow> NL5_dll \<Rightarrow> (exn + unit) \<times> NL5_dll" where
  "simulate_step e w =
     (if 0 \<le> ncir w
      then (case foreign e (NL5_SimulateStep (ncir w)) w of (r, w') \<Rightarrow>
              if ret r < 0
              then (Inl (NL5StartException ''Error trying to perform one simulation step.''), w')
              else (Inr (), w'))
      else (Inl (NL5OpenException not_opened), w))"

definition save_ic :: "engine \<Rightarrow> NL5_dll \<Rightarrow> (exn + unit) \<times> NL5_dll" where
  "save_ic e w =
     (if 0 \<le> ncir w
      then (case foreign e (NL5_SaveIC (ncir w)) w of (r, w') \<Rightarrow>
              if ret r < 0
              then (Inl (NL5SaveException ''Error trying to save initial conditions into components.''), w')
              else (Inr (), w'))
      else (Inl (NL5OpenException not_opened), w))"

section \<open>Transient data\<close>

definition delete_old_data :: "engine \<Rightarrow> NL5_dll \<Rightarrow> (exn + unit) \<times> NL5_dll" where
  "delete_old_data e w =
     (if 0 \<le> ncir w
      then (case foreign e (NL5_DeleteOldData (ncir w)) w of (r, w') \<Rightarrow>
              if ret r < 0
              then (Inl (NL5DeleteException ''Error trying to delete old data.''), w')
              else (Inr (), w'))
      else (Inl (NL5OpenException not_opened), w))"

definition save_data :: "engine \<Rightarrow> host \<Rightarrow> string \<Rightarrow> string \<Rightarrow> NL5_dll \<Rightarrow> (exn + unit) \<times> NL5_dll" where
  "save_data e h name pth w =
     (let dir = (if pth \<noteq> [] then abspath h pth else getcwd h);
          name' = (if \<not> endswith name ''.nlt'' then name @ ''.nlt'' else name);
          data_file = join h dir name'
      in if 0 \<le> ncir w
         then (case foreign e (NL5_SaveData (ncir w) data_file) w of (r, w') \<Rightarrow>
                 if ret r < 0
                 then (Inl (NL5SaveException ''Error trying to save NL5 data file.''), w')
                 else (Inr (), w'))
         else (Inl (NL5OpenException not_opened), w))"

definition get_trace :: "string \<Rightarrow> NL5_dll \<Rightarrow> (exn + int) \<times> NL5_dll" where
  "get_trace name w = (Inl (NL5NotImplementedException ''function get_trace not implemented!''), w)"

definition get_data :: "engine \<Rightarrow> host \<Rightarrow> string \<Rightarrow> real \<Rightarrow> NL5_dll \<Rightarrow> (exn + real) \<times> NL5_dll" where
  "get_data e h name time w =
     (if 0 \<le> ncir w
      then (case foreign e (NL5_GetTrace (ncir w) name) w of (p, w1) \<Rightarrow>
              if 0 \<le> ret p
              then (case foreign e (NL5_GetData (ncir w) (ret p) \<bar>time\<bar>) w1 of (r, w2) \<Rightarrow>
                      if ret r < 0
                      then (Inl (NL5ValueException
                              (''Data point does not exist for abs(time)='' @ repr h \<bar>time\<bar> @ '' seconds.'')), w2)
                      else (Inr (out1 r), w2))
              else (Inl (NL5TraceException
                      (''Trace '' @ name @ '' does not exist in circuit.'')), w1))
      else (Inl (NL5OpenException not_opened), w))"

definition get_last_data :: "engine \<Rightarrow> string \<Rightarrow> NL5_dll \<Rightarrow> (exn + real \<times> real) \<times> NL5_dll" where
  "get_last_data e name w =
     (if 0 \<le> ncir w
      then (case foreign e (NL5_GetTrace (ncir w) name) w of (p, w1) \<Rightarrow>
              if 0 \<le> ret p
              then (case foreign e (NL5_GetLastData (ncir w) (ret p)) w1 of (r, w2) \<Rightarrow>
                      if ret r < 0
                      then (Inl (NL5ValueException ''Data point does not exist.''), w2)
                      else (Inr (out1 r, out2 r), w2))
              else (Inl (NL5TraceException
                      (''Trace '' @ name @ '' does not exist in circuit.'')), w1))
      else (Inl (NL5OpenException not_opened), w))"

definition get_data_at :: "engine \<Rightarrow> string \<Rightarrow> int \<Rightarrow> NL5_dll \<Rightarrow> (exn + real \<times> real) \<times> NL5_dll" where
  "get_data_at e name n w =
     (if 0 \<le> ncir w
      then (case foreign e (NL5_GetTrace (ncir w) name) w of (p, w1) \<Rightarrow>
              if 0 \<le> ret p
              then (case foreign e (NL5_GetDataAt (ncir w) (ret p) (c_int n)) w1 of (r, w2) \<Rightarrow>
                      if ret r < 0
                      then (Inl (NL5ValueException
                              ''Index is less than zero, or greater or equal to data size.''), w2)
                      else (Inr (out1 r, out2 r), w2))
              else (Inl (NL5TraceException
                      (''Trace '' @ name @ '' does not exist in circuit.'')), w1))
      else (Inl (NL5OpenException not_opened), w))"

definition get_data_size :: "engine \<Rightarrow> string \<Rightarrow> NL5_dll \<Rightarrow> (exn + int) \<times> NL5_dll" where
  "get_data_size e name w =
     (if 0 \<le> ncir w
      then (case foreign e (NL5_GetTrace (ncir w) name) w of (p, w1) \<Rightarrow>
              if 0 \<le> ret p
              then (case foreign e (NL5_GetDataSize (ncir w) (ret p)) w1 of (r, w2) \<Rightarrow>
                      if ret r < 0
                      then (Inl (NL5ValueException
                              (''Error occurred when trying to read data size of trace '' @ name @ ''.'')), w2)
                      else (Inr (ret r), w2))
              else (Inl (NL5TraceException
                      (''Trace '' @ name @ '' does not exist in circuit.'')), w1))
      else (Inl (NL5OpenException not_opened), w))"

section \<open>AC analysis\<close>

definition simulate_ac :: "engine \<Rightarrow> NL5_dll \<Rightarrow> (exn + unit) \<times> NL5_dll" where
  "simulate_ac e w =
     (if 0 \<le> ncir w
      then (case foreign e (NL5_CalcAC (ncir w)) w of (r, w') \<Rightarrow>
              if ret r < 0
              then (Inl (NL5StartException ''Error trying to start AC simulation''), w')
              else (Inr (), w'))
      else (Inl (NL5OpenException not_opened), w))"

definition get_ac_trace :: "string \<Rightarrow> NL5_dll \<Rightarrow> (exn + int) \<times> NL5_dll" where
  "get_ac_trace name w = (Inl (NL5NotImplementedException ''function get_ac_trace not implemented!''), w)"

definition get_ac_data_size :: "engine \<Rightarrow> string \<Rightarrow> NL5_dll \<Rightarrow> (exn + int) \<times> NL5_dll" where
  "get_ac_data_size e name w =
     (if 0 \<le> ncir w
      then (case foreign e (NL5_GetACTrace (ncir w) name) w of (p, w1) \<Rightarrow>
              if 0 \<le> ret p
              then (case foreign e (NL5_GetACDataSize (ncir w) (ret p)) w1 of (r, w2) \<Rightarrow>
                      if ret r < 0
                      then (Inl (NL5ValueException
                              (''Error occurred when trying to read AC data size of trace '' @ name @ ''.'')), w2)
                      else (Inr (ret r), w2))
              else (Inl (NL5TraceException
                      (''AC Trace '' @ name @ '' does not exist in circuit.'')), w1))
      else (Inl (NL5OpenException not_opened), w))"

definition get_ac_data_at :: "engine \<Rightarrow> string \<Rightarrow> int \<Rightarrow> NL5_dll \<Rightarrow> (exn + real \<times> real \<times> real) \<times> NL5_dll" where
  "get_ac_data_at e name n w =
     (if 0 \<le> ncir w
      then (case foreign e (NL5_GetACTrace (ncir w) name) w of (p, w1) \<Rightarrow>
              if 0 \<le> ret p
              then (case foreign e (NL5_GetACDataAt (ncir w) (ret p) (c_int n)) w1 of (r, w2) \<Rightarrow>
                      if ret r < 0
                      then (Inl (NL5ValueException
                              ''Index is less than zero, or greater or equal to data size.''), w2)
                      else (Inr (out1 r, out2 r, out3 r), w2))
              else (Inl (NL5TraceException
                      (''AC Trace '' @ name @ '' does not exist in circuit.'')), w1))
      else (Inl (NL5OpenException not_opened), w))"

definition save_ac_data :: "engine \<Rightarrow> host \<Rightarrow> string \<Rightarrow> string \<Rightarrow> NL5_dll \<Rightarrow> (exn + unit) \<times> NL5_dll" where
  "save_ac_data e h name pth w =
     (let dir = (if pth \<noteq> [] then abspath h pth else getcwd h);
          name' = (if \<not> endswith name ''.nlf'' then name @ ''.nlf'' else name);
          data_file = join h dir name'
      in if 0 \<le> ncir w
         then (case foreign e (NL5_SaveACData (ncir w) data_file) w of (r, w') \<Rightarrow>
                 if ret r < 0
                 then (Inl (NL5SaveException ''Error trying to save NL5 data file.''), w')
                 else (Inr (), w'))
         else (Inl (NL5OpenException not_opened), w))"

section \<open>Bulk extraction\<close>

text \<open>
  The three \<open>for i in range(...)\<close> loops, as recursion over the indices still to visit.
  The vectors start as \<open>np.zeros\<close> and are written at index \<open>i\<close>.

  \<open>get_data_slice\<close> computes its sample count and times in double arithmetic; here the
  arithmetic is that of the reals (\<open>int(...)\<close> truncates towards zero), so the model
  agrees with the code wherever the doubles are exact. A zero \<open>t_step\<close> raises
  \<open>ZeroDivisionError\<close>, a negative count makes \<open>np.zeros\<close> raise \<open>ValueError\<close>.
\<close>

fun data_slice_loop ::
  "engine \<Rightarrow> host \<Rightarrow> int \<Rightarrow> int \<Rightarrow> real \<Rightarrow> real \<Rightarrow> nat list \<Rightarrow> real list \<Rightarrow> NL5_dll
     \<Rightarrow> (exn + real list) \<times> NL5_dll" where
  "data_slice_loop e h nc ntrace t_start t_step [] v w = (Inr v, w)"
| "data_slice_loop e h nc ntrace t_start t_step (i # rest) v w =
     (let t = real i * t_step + t_start
      in case foreign e (NL5_GetData nc ntrace \<bar>t\<bar>) w of (r, w') \<Rightarrow>
           if ret r < 0
           then (Inl (NL5ValueException
                   (''Data point does not exist for time='' @ repr h t @ '' seconds.'')), w')
           else data_slice_loop e h nc ntrace t_start t_step rest (v[i := out1 r]) w')"

definition get_data_slice ::
  "engine \<Rightarrow> host \<Rightarrow> string \<Rightarrow> real \<Rightarrow> real \<Rightarrow> real \<Rightarrow> NL5_dll \<Rightarrow> (exn + real list) \<times> NL5_dll" where
  "get_data_slice e h name t_start t_end t_step w =
     (if 0 \<le> ncir w
      then (case foreign e (NL5_GetTrace (ncir w) name) w of (p, w1) \<Rightarrow>
              if 0 \<le> ret p
              then if t_step = 0 then (Inl (PythonError ZeroDivisionError), w1)
                   else (let q = (t_end - t_start) / t_step;
                             N = (if 0 \<le> q then \<lfloor>q\<rfloor> else \<lceil>q\<rceil>) + 1
                         in if N < 0 then (Inl (PythonError ValueError), w1)
                            else data_slice_loop e h (ncir w) (ret p) t_start t_step
                                   [0..<nat N] (replicate (nat N) 0) w1)
              else (Inl (NL5TraceException
                      (''Trace '' @ name @ '' does not exist in circuit.'')), w1))
      else (Inl (NL5OpenException not_opened), w))"

fun timedata_loop ::
  "engine \<Rightarrow> int \<Rightarrow> int \<Rightarrow> nat list \<Rightarrow> real list \<times> real list \<Rightarrow> NL5_dll
     \<Rightarrow> (exn + real list \<times> real list) \<times> NL5_dll" where
  "timedata_loop e nc ntrace [] vecs w = (Inr vecs, w)"
| "timedata_loop e nc ntrace (i # rest) (t_vec, d_vec) w =
     (case foreign e (NL5_GetDataAt nc ntrace (c_int (int i))) w of (r, w') \<Rightarrow>
        if ret r < 0
        then (Inl (NL5ValueException
                ''Index is less than zero, or greater or equal to data size.''), w')
        else timedata_loop e nc ntrace rest (t_vec[i := out1 r], d_vec[i := out2 r]) w')"

definition get_timedata_vectors ::
  "engine \<Rightarrow> string \<Rightarrow> NL5_dll \<Rightarrow> (exn + real list \<times> real list) \<times> NL5_dll" where
  "get_timedata_vectors e name w =
     (if 0 \<le> ncir w
      then (case foreign e (NL5_GetTrace (ncir w) name) w of (p, w1) \<Rightarrow>
              if 0 \<le> ret p
              then (case foreign e (NL5_GetDataSize (ncir w) (ret p)) w1 of (s, w2) \<Rightarrow>
                      if ret s < 0
                      then (Inl (NL5ValueException
                              (''Error occurred when trying to read data size of trace '' @ name @ ''.'')), w2)
                      else timedata_loop e (ncir w) (ret p) [0..<nat (ret s)]
                             (replicate (nat (ret s)) 0, replicate (nat (ret s)) 0) w2)
              else (Inl (NL5TraceException
                      (''Trace '' @ name @ '' does not exist in circuit.'')), w1))
      else (Inl (NL5OpenException not_opened), w))"

fun freqmagphase_loop ::
  "engine \<Rightarrow> int \<Rightarrow> int \<Rightarrow> nat list \<Rightarrow> real list \<times> real list \<times> real list \<Rightarrow> NL5_dll
     \<Rightarrow> (exn + real list \<times> real list \<times> real list) \<times> NL5_dll" where
  "freqmagphase_loop e nc ntrace [] vecs w = (Inr vecs, w)"
| "freqmagphase_loop e nc ntrace (i # rest) (f_vec, m_vec, p_vec) w =
     (case foreign e (NL5_GetACDataAt nc ntrace (c_int (int i))) w of (r, w') \<Rightarrow>
        if ret r < 0
        then (Inl (NL5ValueException
                ''Index is less than zero, or greater or equal to data size.''), w')
        else freqmagphase_loop e nc ntrace rest
               (f_vec[i := out1 r], m_vec[i := out2 r], p_vec[i := out3 r]) w')"

definition get_freqmagphase_vectors ::
  "engine \<Rightarrow> host \<Rightarrow> string \<Rightarrow> bool \<Rightarrow> NL5_dll
     \<Rightarrow> (exn + real list \<times> real list \<times> real list) \<times> NL5_dll" where
  "get_freqmagphase_vectors e h name lg w =
     (if 0 \<le> ncir w
      then (case foreign e (NL5_GetACTrace (ncir w) name) w of (p, w1) \<Rightarrow>
              if 0 \<le> ret p
              then (case foreign e (NL5_GetACDataSize (ncir w) (ret p)) w1 of (s, w2) \<Rightarrow>
                      if ret s < 0
                      then (Inl (NL5ValueException
                              (''Error occurred when trying to read data size of trace '' @ name @ ''.'')), w2)
                      else (case freqmagphase_loop e (ncir w) (ret p) [0..<nat (ret s)]
                                   (replicate (nat (ret s)) 0, replicate (nat (ret s)) 0,
                                    replicate (nat (ret s)) 0) w2 of
                              (Inl x, w3) \<Rightarrow> (Inl x, w3)
                            | (Inr (f_vec, m_vec, p_vec), w3) \<Rightarrow>
                                if lg
                                then (Inr (map (log10 h) f_vec,
                                           map (\<lambda>m. 20 * log10 h m) m_vec, p_vec), w3)
                                else (Inr (f_vec, m_vec, p_vec), w3)))
              else (Inl (NL5TraceException
                      (''AC Trace '' @ name @ '' does not exist in circuit.'')), w1))
      else (Inl (NL5OpenException not_opened), w))"

section \<open>The public interface as a whole\<close>

text \<open>
  To speak about every method at once, a call of a public method is a \<open>request\<close> (the
  method and its arguments), and \<open>perform\<close> runs it, keeping the exception raised, if
  any, and the client afterwards.
\<close>

datatype request =
    Get_error
  | Get_info
  | Get_license string string
  | Open string string
  | Close
  | Save
  | Save_as string string
  | Get_value string
  | Set_value string real
  | Get_text string int
  | Set_text string string
  | Get_parameter_value string
  | Set_parameter_value string real
  | Get_parameter_text string int
  | Set_parameter_text string string
  | Add_voltage_trace string
  | Add_current_trace string
  | Add_power_trace string
  | Add_variable_trace string
  | Add_function_trace string
  | Delete_trace string
  | Set_input_value string real
  | Set_input_logical_value string bool
  | Get_output_value string
  | Get_output_logical_value string
  | Set_step real
  | Set_timeout int
  | Get_simulation_time
  | Start
  | Simulate real
  | Simulate_interval real
  | Simulate_step
  | Save_ic
  | Delete_old_data
  | Save_data string string
  | Get_trace string
  | Get_data string real
  | Get_last_data string
  | Get_data_at string int
  | Get_data_size string
  | Simulate_ac
  | Get_ac_trace string
  | Get_ac_data_size string
  | Get_ac_data_at string int
  | Save_ac_data string string
  | Get_data_slice string real real real
  | Get_timedata_vectors string
  | Get_freqmagphase_vectors string bool

definition raised :: "(exn + 'a) \<times> NL5_dll \<Rightarrow> exn option \<times> NL5_dll" where
  "raised x = (case x of (Inl ex, w) \<Rightarrow> (Some ex, w) | (Inr v, w) \<Rightarrow> (None, w))"

fun perform :: "engine \<Rightarrow> host \<Rightarrow> request \<Rightarrow> NL5_dll \<Rightarrow> exn option \<times> NL5_dll" where
  "perform e h Get_error w = raised (get_error e w)"
| "perform e h Get_info w = raised (get_info e w)"
| "perform e h (Get_license name pth) w = raised (get_license e h name pth w)"
| "perform e h (Open name pth) w = raised (open' e h name pth w)"
| "perform e h Close w = raised (close e w)"
| "perform e h Save w = raised (save e w)"
| "perform e h (Save_as name pth) w = raised (save_as e h name pth w)"
| "perform e h (Get_value name) w = raised (get_value e name w)"
| "perform e h (Set_value name v) w = raised (set_value e name v w)"
| "perform e h (Get_text name n) w = raised (get_text e name n w)"
| "perform e h (Set_text name t) w = raised (set_text e name t w)"
| "perform e h (Get_parameter_value name) w = raised (get_parameter_value e name w)"
| "perform e h (Set_parameter_value name v) w = raised (set_parameter_value e name v w)"
| "perform e h (Get_parameter_text name n) w = raised (get_parameter_text e name n w)"
| "perform e h (Set_parameter_text name t) w = raised (set_parameter_text e name t w)"
| "perform e h (Add_voltage_trace name) w = raised (add_voltage_trace e name w)"
| "perform e h (Add_current_trace name) w = raised (add_current_trace e name w)"
| "perform e h (Add_power_trace name) w = raised (add_power_trace e name w)"
| "perform e h (Add_variable_trace name) w = raised (add_variable_trace e name w)"
| "perform e h (Add_function_trace t) w = raised (add_function_trace e t w)"
| "perform e h (Delete_trace name) w = raised (delete_trace e name w)"
| "perform e h (Set_input_value name v) w = raised (set_input_value e name v w)"
| "perform e h (Set_input_logical_value name b) w = raised (set_input_logical_value e name b w)"
| "perform e h (Get_output_value name) w = raised (get_output_value e name w)"
| "perform e h (Get_output_logical_value name) w = raised (get_output_logical_value e name w)"
| "perform e h (Set_step x) w = raised (set_step e x w)"
| "perform e h (Set_timeout t) w = raised (set_timeout e t w)"
| "perform e h Get_simulation_time w = raised (get_simulation_time e w)"
| "perform e h Start w = raised (start e w)"
| "perform e h (Simulate x) w = raised (simulate e h x w)"
| "perform e h (Simulate_interval x) w = raised (simulate_interval e h x w)"
| "perform e h Simulate_step w = raised (simulate_step e w)"
| "perform e h Save_ic w = raised (save_ic e w)"
| "perform e h Delete_old_data w = raised (delete_old_data e w)"
| "perform e h (Save_data name pth) w = raised (save_data e h name pth w)"
| "perform e h (Get_trace name) w = raised (get_trace name w)"
| "perform e h (Get_data name x) w = raised (get_data e h name x w)"
| "perform e h (Get_last_data name) w = raised (get_last_data e name w)"
| "perform e h (Get_data_at name n) w = raised (get_data_at e name n w)"
| "perform e h (Get_data_size name) w = raised (get_data_size e name w)"
| "perform e h Simulate_ac w = raised (simulate_ac e w)"
| "perform e h (Get_ac_trace name) w = raised (get_ac_trace name w)"
| "perform e h (Get_ac_data_size name) w = raised (get_ac_data_size e name w)"
| "perform e h (Get_ac_data_at name n) w = raised (get_ac_data_at e name n w)"
| "perform e h (Save_ac_data name pth) w = raised (save_ac_data e h name pth w)"
| "perform e h (Get_data_slice name a b c) w = raised (get_data_slice e h name a b c w)"
| "perform e h (Get_timedata_vectors name) w = raised (get_timedata_vectors e name w)"
| "perform e h (Get_freqmagphase_vectors name lg) w = raised (get_freqmagphase_vectors e h name lg w)"

text \<open>
  The methods that work on the open document: all but the two text queries, the licence
  check, \<open>open\<close> and the two methods that are not implemented.
\<close>

fun needs_document :: "request \<Rightarrow> bool" where
  "needs_document Get_error = False"
| "needs_document Get_info = False"
| "needs_document (Get_license name pth) = False"
| "needs_document (Open name pth) = False"
| "needs_document (Get_trace name) = False"
| "needs_document (Get_ac_trace name) = False"
| "needs_document r = True"

text \<open>
  The entry points whose return value no method examines: \<open>NL5_Close\<close> (in \<open>close\<close> and
  in \<open>open\<close>), and the two that return a text and no status.
\<close>

fun unexamined :: "fcall \<Rightarrow> bool" where
  "unexamined (NL5_Close nc) = True"
| "unexamined NL5_GetError = True"
| "unexamined NL5_GetInfo = True"
| "unexamined c = False"

text \<open>
  \<open>heeded e hist cs failed\<close>: in the run of foreign calls \<open>cs\<close>, made after \<open>hist\<close>, every
  call was answered with a non-negative status, or is one whose return value is not examined, or is the
  last call of a run that ended in an exception.
\<close>

fun heeded :: "engine \<Rightarrow> fcall list \<Rightarrow> fcall list \<Rightarrow> bool \<Rightarrow> bool" where
  "heeded e hist [] failed = True"
| "heeded e hist (c # cs) failed =
     ((0 \<le> ret (e hist c) \<or> unexamined c \<or> (cs = [] \<and> failed)) \<and> heeded e (hist @ [c]) cs failed)"

text \<open>The message of an exception of the module.\<close>

fun message :: "exn \<Rightarrow> string option" where
  "message (NL5OpenException m) = Some m"
| "message (NL5ParamException m) = Some m"
| "message (NL5TraceException m) = Some m"
| "message (NL5ValueException m) = Some m"
| "message (NL5SaveException m) = Some m"
| "message (NL5StartException m) = Some m"
| "message (NL5DeleteException m) = Some m"
| "message (NL5LicenseException m) = Some m"
| "message (NL5NotImplementedException m) = Some m"
| "message (PythonError x) = None"

text \<open>An exception that reports a name the library could not resolve to a handle.\<close>

fun lookup_failure :: "exn \<Rightarrow> bool" where
  "lookup_failure (NL5ParamException m) = True"
| "lookup_failure (NL5TraceException m) = True"
| "lookup_failure x = False"

text \<open>The parameter, trace or file name a request carries, if it carries one.\<close>

fun named_item :: "request \<Rightarrow> string option" where
  "named_item (Get_license name pth) = Some name"
| "named_item (Open name pth) = Some name"
| "named_item (Save_as name pth) = Some name"
| "named_item (Get_value name) = Some name"
| "named_item (Set_value name v) = Some name"
| "named_item (Get_text name n) = Some name"
| "named_item (Set_text name t) = Some name"
| "named_item (Get_parameter_value name) = Some name"
| "named_item (Set_parameter_value name v) = Some name"
| "named_item (Get_parameter_text name n) = Some name"
| "named_item (Set_parameter_text name t) = Some name"
| "named_item (Add_voltage_trace name) = Some name"
| "named_item (Add_current_trace name) = Some name"
| "named_item (Add_power_trace name) = Some name"
| "named_item (Add_variable_trace name) = Some name"
| "named_item (Add_function_trace t) = Some t"
| "named_item (Delete_trace name) = Some name"
| "named_item (Set_input_value name v) = Some name"
| "named_item (Set_input_logical_value name b) = Some name"
| "named_item (Get_output_value name) = Some name"
| "named_item (Get_output_logical_value name) = Some name"
| "named_item (Save_data name pth) = Some name"
| "named_item (Get_trace name) = Some name"
| "named_item (Get_data name x) = Some name"
| "named_item (Get_last_data name) = Some name"
| "named_item (Get_data_at name n) = Some name"
| "named_item (Get_data_size name) = Some name"
| "named_item (Get_ac_trace name) = Some name"
| "named_item (Get_ac_data_size name) = Some name"
| "named_item (Get_ac_data_at name n) = Some name"
| "named_item (Save_ac_data name pth) = Some name"
| "named_item (Get_data_slice name a b c) = Some name"
| "named_item (Get_timedata_vectors name) = Some name"
| "named_item (Get_freqmagphase_vectors name lg) = Some name"
| "named_item r = None"

text \<open>The methods all of whose failure messages are f-strings with the name in them.\<close>

fun names_throughout :: "request \<Rightarrow> bool" where
  "names_throughout (Save_as name pth) = True"
| "names_throughout (Get_value name) = True"
| "names_throughout (Set_value name v) = True"
| "names_throughout (Get_text name n) = True"
| "names_throughout (Set_text name t) = True"
| "names_throughout (Get_parameter_value name) = True"
| "names_throughout (Set_parameter_value name v) = True"
| "names_throughout (Get_parameter_text name n) = True"
| "names_throughout (Set_parameter_text name t) = True"
| "names_throughout (Add_voltage_trace name) = True"
| "names_throughout (Add_current_trace name) = True"
| "names_throughout (Add_power_trace name) = True"
| "names_throughout (Add_variable_trace name) = True"
| "names_throughout (Add_function_trace t) = True"
| "names_throughout (Delete_trace name) = True"
| "names_throughout (Set_input_value name v) = True"
| "names_throughout (Set_input_logical_value name b) = True"
| "names_throughout (Get_output_value name) = True"
| "names_throughout (Get_output_logical_value name) = True"
| "names_throughout (Get_data_size name) = True"
| "names_throughout (Get_ac_data_size name) = True"
| "names_throughout r = False"

text \<open>
  \<open>trail e w x\<close>: the outcome \<open>x\<close> of a method started on the client \<open>w\<close> has added a
  run of foreign calls to those of \<open>w\<close>, and that run is \<open>heeded\<close>.
\<close>

definition trail :: "engine \<Rightarrow> NL5_dll \<Rightarrow> (exn + 'a) \<times> NL5_dll \<Rightarrow> bool" where
  "trail e w x = (\<exists>cs. calls (snd x) = calls w @ cs \<and> heeded e (calls w) cs (isl (fst x)))"

section \<open>Sample surroundings\<close>

text \<open>
  A host with POSIX paths whose \<open>repr\<close> prints \<open>1.0\<close> and \<open>-1.0\<close> as Python does; a
  library that rejects every call, one that accepts every call, and one that holds a
  trace of three samples; a client with document \<open>0\<close> open.
\<close>

definition posix_host :: host where
  "posix_host =
     \<lparr>getcwd = ''/work'', abspath = (\<lambda>p. p), join = (\<lambda>a b. a @ ''/'' @ b),
      repr = (\<lambda>x. if x = 1 then ''1.0'' else if x = - 1 then ''-1.0'' else ''0.0''),
      log10 = (\<lambda>x. x)\<rparr>"

definition rejecting :: engine where
  "rejecting hist c = \<lparr>ret = - 1, out1 = 0, out2 = 0, out3 = 0, buf = []\<rparr>"

definition accepting :: engine where
  "accepting hist c = \<lparr>ret = 0, out1 = 0, out2 = 0, out3 = 0, buf = []\<rparr>"

definition three_samples :: engine where
  "three_samples hist c =
     (case c of
        NL5_GetDataSize nc nt \<Rightarrow> \<lparr>ret = 3, out1 = 0, out2 = 0, out3 = 0, buf = []\<rparr>
      | NL5_GetDataAt nc nt n \<Rightarrow>
          \<lparr>ret = (if 0 \<le> n \<and> n < 3 then 0 else - 1), out1 = real_of_int n, out2 = 5,
           out3 = 0, buf = []\<rparr>
      | _ \<Rightarrow> \<lparr>ret = 0, out1 = 0, out2 = 0, out3 = 0, buf = []\<rparr>)"

definition opened :: NL5_dll where
  "opened = \<lparr>path = ''/lib'', ncir = 0, calls = []\<rparr>"

section \<open>Auxiliary facts\<close>

lemmas method_defs =
  get_error_def get_info_def get_license_def open'_def close_def save_def save_as_def
  get_value_def set_value_def get_text_def set_text_def get_parameter_value_def
  set_parameter_value_def get_parameter_text_def set_parameter_text_def
  add_voltage_trace_def add_current_trace_def add_power_trace_def add_variable_trace_def
  add_function_trace_def delete_trace_def set_input_value_def set_input_logical_value_def
  get_output_value_def get_output_logical_value_def set_step_def set_timeout_def
  get_simulation_time_def start_def simulate_def simulate_interval_def simulate_step_def
  save_ic_def delete_old_data_def save_data_def get_trace_def get_data_def get_last_data_def
  get_data_at_def get_data_size_def simulate_ac_def get_ac_trace_def get_ac_data_size_def
  get_ac_data_at_def save_ac_data_def get_data_slice_def get_timedata_vectors_def
  get_freqmagphase_vectors_def

text \<open>\<open>endswith\<close> is the suffix relation of the list library.\<close>

lemma endswith_suffix: "endswith s x \<longleftrightarrow> suffix x s"
  unfolding endswith_def suffix_def
  by (metis append_eq_conv_conj append_take_drop_id diff_add_inverse2 le_add2 length_append)

text \<open>Inside the range of a C int nothing is lost.\<close>

lemma c_int_in_range: "- 2147483648 \<le> n \<Longrightarrow> n < 2147483648 \<Longrightarrow> c_int n = n"
  by (simp add: c_int_def)

lemma fst_raised: "fst (raised x) = Some ex \<longleftrightarrow> fst x = Inl ex"
  by (auto simp: raised_def split: prod.splits sum.splits)

subsection \<open>Runs of foreign calls\<close>

lemma heeded_index:
  "heeded e hist cs b \<Longrightarrow> i < length cs \<Longrightarrow> ret (e (hist @ take i cs) (cs ! i)) < 0
     \<Longrightarrow> unexamined (cs ! i) \<or> (b \<and> Suc i = length cs)"
proof (induction cs arbitrary: hist i)
  case Nil
  then show ?case by simp
next
  case (Cons c cs)
  show ?case
  proof (cases i)
    case 0
    with Cons.prems show ?thesis by auto
  next
    case (Suc j)
    with Cons.prems have "heeded e (hist @ [c]) cs b" "j < length cs"
      "ret (e ((hist @ [c]) @ take j cs) (cs ! j)) < 0" by simp_all
    from Cons.IH [OF this] Suc show ?thesis by simp
  qed
qed

lemma trail_none: "trail e w (y, w)"
  by (simp add: trail_def)

lemma trail_step:
  assumes "0 \<le> ret (e (calls w) c) \<or> unexamined c"
    and "trail e (w\<lparr>calls := calls w @ [c]\<rparr>) x"
  shows "trail e w x"
proof -
  from assms(2) obtain cs where "calls (snd x) = (calls w @ [c]) @ cs"
    "heeded e (calls w @ [c]) cs (isl (fst x))" by (auto simp: trail_def)
  with assms(1) have "calls (snd x) = calls w @ (c # cs) \<and> heeded e (calls w) (c # cs) (isl (fst x))"
    by auto
  then show ?thesis unfolding trail_def by blast
qed

lemma trail_last: "trail e w (Inl y, w\<lparr>calls := calls w @ [c]\<rparr>)"
  unfolding trail_def by (rule exI [of _ "[c]"]) simp

lemma trail_foreign:
  assumes "\<And>w'. w' = w\<lparr>calls := calls w @ [c]\<rparr> \<Longrightarrow> 0 \<le> ret (e (calls w) c)
             \<Longrightarrow> trail e w' (k (e (calls w) c) w')"
  shows "trail e w (case foreign e c w of (r, w') \<Rightarrow> if ret r < 0 then (Inl y, w') else k r w')"
proof (cases "ret (e (calls w) c) < 0")
  case True
  then show ?thesis by (simp add: foreign_def trail_last)
next
  case False
  then have "trail e (w\<lparr>calls := calls w @ [c]\<rparr>) (k (e (calls w) c) (w\<lparr>calls := calls w @ [c]\<rparr>))"
    using assms by simp
  with False have "trail e w (k (e (calls w) c) (w\<lparr>calls := calls w @ [c]\<rparr>))"
    using trail_step [of e w c] by simp
  with False show ?thesis by (simp add: foreign_def)
qed

lemma trail_lookup:
  assumes "\<And>w'. w' = w\<lparr>calls := calls w @ [c]\<rparr> \<Longrightarrow> 0 \<le> ret (e (calls w) c)
             \<Longrightarrow> trail e w' (k (e (calls w) c) w')"
  shows "trail e w (case foreign e c w of (r, w') \<Rightarrow> if 0 \<le> ret r then k r w' else (Inl y, w'))"
proof -
  have "(case foreign e c w of (r, w') \<Rightarrow> if 0 \<le> ret r then k r w' else (Inl y, w'))
      = (case foreign e c w of (r, w') \<Rightarrow> if ret r < 0 then (Inl y, w') else k r w')"
    by (auto simp: foreign_def)
  then show ?thesis using trail_foreign [of w c e k y] assms by simp
qed

lemma trail_unexamined:
  "unexamined c \<Longrightarrow> trail e w (case foreign e c w of (r, w') \<Rightarrow> (y r, w'))"
  by (simp add: foreign_def trail_step [of e w c] trail_none)

lemma trail_map:
  assumes "trail e w x" and "snd y = snd x" and "isl (fst y) = isl (fst x)"
  shows "trail e w y"
  using assms by (simp add: trail_def)

lemma trail_raised:
  assumes "trail e w x"
  shows "\<exists>cs. calls (snd (raised x)) = calls w @ cs \<and> heeded e (calls w) cs (fst (raised x) \<noteq> None)"
proof -
  have "snd (raised x) = snd x" "(fst (raised x) \<noteq> None) = isl (fst x)"
    by (auto simp: raised_def split: prod.splits sum.splits)
  with assms show ?thesis by (simp add: trail_def)
qed

subsection \<open>The loops\<close>

lemma timedata_loop_trail: "trail e w (timedata_loop e nc nt ixs vecs w)"
proof (induction ixs arbitrary: vecs w)
  case Nil
  then show ?case by (simp add: trail_none)
next
  case (Cons i ixs)
  obtain tv dv where v: "vecs = (tv, dv)" by (cases vecs)
  show ?case unfolding v timedata_loop.simps
    by (rule trail_foreign) (rule Cons.IH)
qed

lemma freqmagphase_loop_trail: "trail e w (freqmagphase_loop e nc nt ixs vecs w)"
proof (induction ixs arbitrary: vecs w)
  case Nil
  then show ?case by (simp add: trail_none)
next
  case (Cons i ixs)
  obtain fv mv pv where v: "vecs = (fv, mv, pv)" by (cases vecs) auto
  show ?case unfolding v freqmagphase_loop.simps
    by (rule trail_foreign) (rule Cons.IH)
qed

lemma data_slice_loop_trail: "trail e w (data_slice_loop e h nc nt a b ixs v w)"
proof (induction ixs arbitrary: v w)
  case Nil
  then show ?case by (simp add: trail_none)
next
  case (Cons i ixs)
  show ?case unfolding data_slice_loop.simps Let_def
    by (rule trail_foreign) (rule Cons.IH)
qed

lemma freqmagphase_post_trail:
  "trail e w (case freqmagphase_loop e nc nt ixs vecs w of
                (Inl x, w3) \<Rightarrow> (Inl x, w3)
              | (Inr (f_vec, m_vec, p_vec), w3) \<Rightarrow>
                  if lg then (Inr (F f_vec, G m_vec, p_vec), w3)
                  else (Inr (f_vec, m_vec, p_vec), w3))"
  by (rule trail_map [OF freqmagphase_loop_trail [of e w nc nt ixs vecs]])
     (auto split: prod.splits sum.splits)

text \<open>The loops raise \<open>NL5ValueException\<close> only.\<close>

lemma timedata_loop_raises:
  "fst (timedata_loop e nc nt ixs vecs w) = Inl ex \<Longrightarrow> \<not> lookup_failure ex"
proof (induction ixs arbitrary: vecs w)
  case Nil
  then show ?case by simp
next
  case (Cons i ixs)
  obtain tv dv where v: "vecs = (tv, dv)" by (cases vecs)
  from Cons.prems show ?case unfolding v
    by (auto simp: foreign_def split: if_splits dest: Cons.IH)
qed

lemma freqmagphase_loop_raises:
  "fst (freqmagphase_loop e nc nt ixs vecs w) = Inl ex \<Longrightarrow> \<not> lookup_failure ex"
proof (induction ixs arbitrary: vecs w)
  case Nil
  then show ?case by simp
next
  case (Cons i ixs)
  obtain fv mv pv where v: "vecs = (fv, mv, pv)" by (cases vecs) auto
  from Cons.prems show ?case unfolding v
    by (auto simp: foreign_def split: if_splits dest: Cons.IH)
qed

lemma freqmagphase_loop_raises_pair:
  "freqmagphase_loop e nc nt ixs vecs w = (Inl ex, w') \<Longrightarrow> \<not> lookup_failure ex"
  using freqmagphase_loop_raises [of e nc nt ixs vecs w ex] by simp

lemma data_slice_loop_raises:
  "fst (data_slice_loop e h nc nt a b ixs v w) = Inl ex \<Longrightarrow> \<not> lookup_failure ex"
proof (induction ixs arbitrary: v w)
  case Nil
  then show ?case by simp
next
  case (Cons i ixs)
  from Cons.prems show ?case
    by (auto simp: foreign_def Let_def split: if_splits dest: Cons.IH)
qed

subsection \<open>Every method heeds the statuses it examines\<close>

lemma get_error_trail: "trail e w (get_error e w)"
  unfolding get_error_def by (rule trail_unexamined) simp

lemma get_info_trail: "trail e w (get_info e w)"
  unfolding get_info_def by (rule trail_unexamined) simp

lemma open_trail: "trail e w (open' e h name pth w)"
  unfolding open'_def trail_def foreign_def Let_def by auto

lemma close_trail: "trail e w (close e w)"
  unfolding close_def trail_def foreign_def by auto

lemma get_trace_trail: "trail e w (get_trace name w)"
  by (simp add: get_trace_def trail_none)

lemma get_ac_trace_trail: "trail e w (get_ac_trace name w)"
  by (simp add: get_ac_trace_def trail_none)

lemma save_trail: "trail e w (save e w)"
  unfolding save_def by (auto simp: trail_none intro!: trail_foreign trail_lookup)

lemma get_value_trail: "trail e w (get_value e name w)"
  unfolding get_value_def by (auto simp: trail_none intro!: trail_foreign trail_lookup)

lemma set_value_trail: "trail e w (set_value e name v w)"
  unfolding set_value_def by (auto simp: trail_none intro!: trail_foreign trail_lookup)

lemma get_text_trail: "trail e w (get_text e name n w)"
  unfolding get_text_def by (auto simp: trail_none intro!: trail_foreign trail_lookup)

lemma set_text_trail: "trail e w (set_text e name t w)"
  unfolding set_text_def by (auto simp: trail_none intro!: trail_foreign trail_lookup)

lemma get_parameter_value_trail: "trail e w (get_parameter_value e name w)"
  unfolding get_parameter_value_def by (auto simp: trail_none intro!: trail_foreign trail_lookup)

lemma set_parameter_value_trail: "trail e w (set_parameter_value e name v w)"
  unfolding set_parameter_value_def by (auto simp: trail_none intro!: trail_foreign trail_lookup)

lemma get_parameter_text_trail: "trail e w (get_parameter_text e name n w)"
  unfolding get_parameter_text_def by (auto simp: trail_none intro!: trail_foreign trail_lookup)

lemma set_parameter_text_trail: "trail e w (set_parameter_text e name t w)"
  unfolding set_parameter_text_def by (auto simp: trail_none intro!: trail_foreign trail_lookup)

lemma add_voltage_trace_trail: "trail e w (add_voltage_trace e name w)"
  unfolding add_voltage_trace_def by (auto simp: trail_none intro!: trail_foreign trail_lookup)

lemma add_current_trace_trail: "trail e w (add_current_trace e name w)"
  unfolding add_current_trace_def by (auto simp: trail_none intro!: trail_foreign trail_lookup)

lemma add_power_trace_trail: "trail e w (add_power_trace e name w)"
  unfolding add_power_trace_def by (auto simp: trail_none intro!: trail_foreign trail_lookup)

lemma add_variable_trace_trail: "trail e w (add_variable_trace e name w)"
  unfolding add_variable_trace_def by (auto simp: trail_none intro!: trail_foreign trail_lookup)

lemma add_function_trace_trail: "trail e w (add_function_trace e t w)"
  unfolding add_function_trace_def by (auto simp: trail_none intro!: trail_foreign trail_lookup)

lemma delete_trace_trail: "trail e w (delete_trace e name w)"
  unfolding delete_trace_def by (auto simp: trail_none intro!: trail_foreign trail_lookup)

lemma set_input_value_trail: "trail e w (set_input_value e name v w)"
  unfolding set_input_value_def by (auto simp: trail_none intro!: trail_foreign trail_lookup)

lemma set_input_logical_value_trail: "trail e w (set_input_logical_value e name b w)"
  unfolding set_input_logical_value_def by (auto simp: trail_none intro!: trail_foreign trail_lookup)

lemma get_output_value_trail: "trail e w (get_output_value e name w)"
  unfolding get_output_value_def by (auto simp: trail_none intro!: trail_foreign trail_lookup)

lemma get_output_logical_value_trail: "trail e w (get_output_logical_value e name w)"
  unfolding get_output_logical_value_def by (auto simp: trail_none intro!: trail_foreign trail_lookup)

lemma set_step_trail: "trail e w (set_step e x w)"
  unfolding set_step_def by (auto simp: trail_none intro!: trail_foreign trail_lookup)

lemma set_timeout_trail: "trail e w (set_timeout e t w)"
  unfolding set_timeout_def by (auto simp: trail_none intro!: trail_foreign trail_lookup)

lemma get_simulation_time_trail: "trail e w (get_simulation_time e w)"
  unfolding get_simulation_time_def by (auto simp: trail_none intro!: trail_foreign trail_lookup)

lemma start_trail: "trail e w (start e w)"
  unfolding start_def by (auto simp: trail_none intro!: trail_foreign trail_lookup)

lemma simulate_trail: "trail e w (simulate e h x w)"
  unfolding simulate_def by (auto simp: trail_none intro!: trail_foreign trail_lookup)

lemma simulate_interval_trail: "trail e w (simulate_interval e h x w)"
  unfolding simulate_interval_def by (auto simp: trail_none intro!: trail_foreign trail_lookup)

lemma simulate_step_trail: "trail e w (simulate_step e w)"
  unfolding simulate_step_def by (auto simp: trail_none intro!: trail_foreign trail_lookup)

lemma save_ic_trail: "trail e w (save_ic e w)"
  unfolding save_ic_def by (auto simp: trail_none intro!: trail_foreign trail_lookup)

lemma delete_old_data_trail: "trail e w (delete_old_data e w)"
  unfolding delete_old_data_def by (auto simp: trail_none intro!: trail_foreign trail_lookup)

lemma get_data_trail: "trail e w (get_data e h name x w)"
  unfolding get_data_def by (auto simp: trail_none intro!: trail_foreign trail_lookup)

lemma get_last_data_trail: "trail e w (get_last_data e name w)"
  unfolding get_last_data_def by (auto simp: trail_none intro!: trail_foreign trail_lookup)

lemma get_data_at_trail: "trail e w (get_data_at e name n w)"
  unfolding get_data_at_def by (auto simp: trail_none intro!: trail_foreign trail_lookup)

lemma get_data_size_trail: "trail e w (get_data_size e name w)"
  unfolding get_data_size_def by (auto simp: trail_none intro!: trail_foreign trail_lookup)

lemma simulate_ac_trail: "trail e w (simulate_ac e w)"
  unfolding simulate_ac_def by (auto simp: trail_none intro!: trail_foreign trail_lookup)

lemma get_ac_data_size_trail: "trail e w (get_ac_data_size e name w)"
  unfolding get_ac_data_size_def by (auto simp: trail_none intro!: trail_foreign trail_lookup)

lemma get_ac_data_at_trail: "trail e w (get_ac_data_at e name n w)"
  unfolding get_ac_data_at_def by (auto simp: trail_none intro!: trail_foreign trail_lookup)

lemma get_license_trail: "trail e w (get_license e h name pth w)"
  unfolding get_license_def Let_def by (auto simp: trail_none intro!: trail_foreign trail_lookup)

lemma save_as_trail: "trail e w (save_as e h name pth w)"
  unfolding save_as_def Let_def by (auto simp: trail_none intro!: trail_foreign trail_lookup)

lemma save_data_trail: "trail e w (save_data e h name pth w)"
  unfolding save_data_def Let_def by (auto simp: trail_none intro!: trail_foreign trail_lookup)

lemma save_ac_data_trail: "trail e w (save_ac_data e h name pth w)"
  unfolding save_ac_data_def Let_def by (auto simp: trail_none intro!: trail_foreign trail_lookup)

lemma get_data_slice_trail: "trail e w (get_data_slice e h name a b c w)"
  unfolding get_data_slice_def Let_def
  by (auto simp: trail_none data_slice_loop_trail intro!: trail_foreign trail_lookup)

lemma get_timedata_vectors_trail: "trail e w (get_timedata_vectors e name w)"
  unfolding get_timedata_vectors_def
  by (auto simp: trail_none timedata_loop_trail intro!: trail_foreign trail_lookup)

lemma get_freqmagphase_vectors_trail: "trail e w (get_freqmagphase_vectors e h name lg w)"
  unfolding get_freqmagphase_vectors_def
  by (auto simp: trail_none intro!: trail_foreign trail_lookup freqmagphase_post_trail)

lemma perform_heeded:
  "\<exists>cs. calls (snd (perform e h r w)) = calls w @ cs \<and>
        heeded e (calls w) cs (fst (perform e h r w) \<noteq> None)"
proof (cases r)
qed (simp_all only: perform.simps,
     (rule trail_raised, rule get_error_trail get_info_trail open_trail close_trail
        get_trace_trail get_ac_trace_trail get_data_slice_trail get_timedata_vectors_trail
        get_freqmagphase_vectors_trail save_trail get_value_trail set_value_trail get_text_trail set_text_trail get_parameter_value_trail set_parameter_value_trail get_parameter_text_trail set_parameter_text_trail add_voltage_trace_trail add_current_trace_trail add_power_trace_trail add_variable_trace_trail add_function_trace_trail delete_trace_trail set_input_value_trail set_input_logical_value_trail get_output_value_trail get_output_logical_value_trail set_step_trail set_timeout_trail get_simulation_time_trail start_trail simulate_trail simulate_interval_trail simulate_step_trail save_ic_trail delete_old_data_trail get_data_trail get_last_data_trail get_data_at_trail get_data_size_trail simulate_ac_trail get_ac_data_size_trail get_ac_data_at_trail get_license_trail save_as_trail save_data_trail save_ac_data_trail)+)

lemma sublist_after: "sublist n ys \<Longrightarrow> sublist n (y # ys)"
  by (simp add: sublist_Cons_right)

section \<open>The claims\<close>

text \<open>
  Claim C1. Every method that works on the open document (\<open>save\<close>, \<open>save_as\<close>, the value,
  text, parameter, trace, input and output accessors, the simulation controls, the data
  and AC data readers and writers, and the three bulk extractions), called while
  \<open>_ncir\<close> is \<open>-1\<close>, raises \<open>NL5OpenException\<close> and leaves the client as it was: in
  particular no foreign call has been made.
\<close>

theorem no_document_raises_open:
  assumes "ncir w = - 1" and "needs_document r"
  shows "\<exists>m. perform e h r w = (Some (NL5OpenException m), w)"
  using assms by (cases r) (simp_all add: method_defs raised_def Let_def)

theorem no_document_raises_open_witness:
  "ncir (init posix_host ''/lib'') = - 1 \<and> needs_document (Get_value ''R1.R'') \<and>
   (\<exists>m. perform accepting posix_host (Get_value ''R1.R'') (init posix_host ''/lib'')
          = (Some (NL5OpenException m), init posix_host ''/lib''))"
  using no_document_raises_open
          [of "init posix_host ''/lib''" "Get_value ''R1.R''" accepting posix_host]
  by (simp add: init_def)

text \<open>
  Claim C2. A successful \<open>close()\<close> should leave the handle at \<open>-1\<close>, so that the next
  method on the document raises \<open>NL5OpenException\<close>. The code does not: \<open>close\<close> calls
  \<open>NL5_Close\<close> and returns with \<open>_ncir\<close> as it was (\<open>open\<close>, which closes a previous
  document, does reset it). On a client with document \<open>0\<close> open, \<open>close()\<close> succeeds, the
  handle is still \<open>0\<close>, and a following \<open>get_value\<close> goes to the library with the closed
  handle instead of raising.
\<close>

theorem close_keeps_handle:
  "fst (close accepting opened) = Inr () \<and>
   ncir (snd (close accepting opened)) = 0 \<and>
   get_value accepting ''R1.R'' (snd (close accepting opened))
     = (Inr 0, \<lparr>path = ''/lib'', ncir = 0, calls = [NL5_Close 0, NL5_GetValue 0 ''R1.R'']\<rparr>)"
  by (simp add: close_def get_value_def foreign_def accepting_def opened_def)

text \<open>
  Claim C3, as stated: every foreign call of every method that returns a negative status
  makes the method raise at once. It fails for \<open>NL5_Close\<close>: \<open>close\<close> on an open document
  returns normally although the library answered \<open>-1\<close>.
\<close>

theorem close_ignores_status:
  "ret (rejecting (calls opened) (NL5_Close (ncir opened))) < 0 \<and>
   close rejecting opened = (Inr (), \<lparr>path = ''/lib'', ncir = 0, calls = [NL5_Close 0]\<rparr>)"
  by (simp add: close_def foreign_def rejecting_def opened_def)

text \<open>
  Claim C3, amended. A method adds a run \<open>cs\<close> of foreign calls to the record. Whenever
  a call of that run is answered with a negative status, and it is not \<open>NL5_Close\<close> (whose
  return value is dropped in \<open>close\<close> and in \<open>open\<close>) nor one of the text queries
  \<open>NL5_GetError\<close> and \<open>NL5_GetInfo\<close> (which return no status), the method has raised an
  exception and that call is the last of the run: nothing is retried or called after it.
\<close>

theorem negative_status_raises:
  assumes "perform e h r w = (x, w')"
  shows "\<exists>cs. calls w' = calls w @ cs \<and>
           (\<forall>i<length cs. ret (e (calls w @ take i cs) (cs ! i)) < 0 \<longrightarrow>
                unexamined (cs ! i) \<or> (x \<noteq> None \<and> Suc i = length cs))"
proof -
  from perform_heeded [of e h r w] assms obtain cs
    where cs: "calls w' = calls w @ cs" and hd: "heeded e (calls w) cs (x \<noteq> None)"
    by auto
  have "unexamined (cs ! i) \<or> (x \<noteq> None \<and> Suc i = length cs)"
    if "i < length cs" and "ret (e (calls w @ take i cs) (cs ! i)) < 0" for i
    using heeded_index [OF hd that] .
  with cs show ?thesis by blast
qed

theorem negative_status_raises_witness:
  "perform rejecting posix_host Save opened
     = (Some (NL5SaveException ''Error trying to save the schematic circuit file.''),
        opened\<lparr>calls := [NL5_Save 0]\<rparr>) \<and>
   (\<exists>cs. calls (opened\<lparr>calls := [NL5_Save 0]\<rparr>) = calls opened @ cs \<and>
      (\<forall>i<length cs. ret (rejecting (calls opened @ take i cs) (cs ! i)) < 0 \<longrightarrow>
           unexamined (cs ! i) \<or>
           (Some (NL5SaveException ''Error trying to save the schematic circuit file.'') \<noteq> None
            \<and> Suc i = length cs)))"
proof -
  have run: "perform rejecting posix_host Save opened
     = (Some (NL5SaveException ''Error trying to save the schematic circuit file.''),
        opened\<lparr>calls := [NL5_Save 0]\<rparr>)"
    by (simp add: save_def raised_def foreign_def rejecting_def opened_def)
  from negative_status_raises [OF run] run show ?thesis by blast
qed

text \<open>
  Claim C4. \<open>open(name)\<close> on a client with a document open calls \<open>NL5_Close\<close> on the
  old handle once, then \<open>NL5_Open\<close>, and nothing else; when \<open>NL5_Open\<close> returns a
  non-negative handle the method succeeds and that handle is stored. With no document
  open the only foreign call is \<open>NL5_Open\<close>.
\<close>

theorem open_closes_previous:
  fixes e h name pth w
  defines "cir \<equiv> join h (if pth \<noteq> [] then abspath h pth else getcwd h)
                         (if endswith name ''.nl5'' then name else name @ ''.nl5'')"
  shows "(0 \<le> ncir w \<longrightarrow>
            calls (snd (open' e h name pth w)) = calls w @ [NL5_Close (ncir w), NL5_Open cir] \<and>
            (let new = ret (e (calls w @ [NL5_Close (ncir w)]) (NL5_Open cir))
             in 0 \<le> new \<longrightarrow> open' e h name pth w =
                  (Inr (), w\<lparr>ncir := new, calls := calls w @ [NL5_Close (ncir w), NL5_Open cir]\<rparr>)))
       \<and> (ncir w < 0 \<longrightarrow> calls (snd (open' e h name pth w)) = calls w @ [NL5_Open cir])"
  by (simp add: open'_def foreign_def Let_def cir_def)

theorem open_closes_previous_witness:
  "0 \<le> ncir opened \<and>
   calls (snd (open' accepting posix_host ''amp'' [] opened))
     = [NL5_Close 0, NL5_Open ''/work/amp.nl5''] \<and>
   ncir (init posix_host ''/lib'') < 0 \<and>
   calls (snd (open' accepting posix_host ''amp'' [] (init posix_host ''/lib'')))
     = [NL5_Open ''/work/amp.nl5'']"
  using open_closes_previous
          [where w = opened and e = accepting and h = posix_host and name = "''amp''" and pth = "[]"]
    open_closes_previous
          [where w = "init posix_host ''/lib''" and e = accepting and h = posix_host
             and name = "''amp''" and pth = "[]"]
  by (simp add: opened_def init_def posix_host_def endswith_def)

text \<open>
  Claim C5. \<open>open\<close> and \<open>save_as\<close> hand the library the name with \<open>.nl5\<close> appended
  when it does not end in \<open>.nl5\<close> and unchanged when it does; \<open>save_data\<close> does the
  same with \<open>.nlt\<close> and \<open>save_ac_data\<close> with \<open>.nlf\<close>. The name handed over always ends
  in the extension, and an appended extension is never doubled.
\<close>

theorem extension_appended_once:
  fixes name pth :: string and h :: host
  defines "dir \<equiv> (if pth \<noteq> [] then abspath h pth else getcwd h)"
  defines "fixed \<equiv> (\<lambda>ext. if suffix ext name then name else name @ ext)"
  shows "last (calls (snd (open' e h name pth w))) = NL5_Open (join h dir (fixed ''.nl5'')) \<and>
     (0 \<le> ncir w \<longrightarrow>
        calls (snd (save_as e h name pth w))
          = calls w @ [NL5_SaveAs (ncir w) (join h dir (fixed ''.nl5''))] \<and>
        calls (snd (save_data e h name pth w))
          = calls w @ [NL5_SaveData (ncir w) (join h dir (fixed ''.nlt''))] \<and>
        calls (snd (save_ac_data e h name pth w))
          = calls w @ [NL5_SaveACData (ncir w) (join h dir (fixed ''.nlf''))]) \<and>
     (\<forall>ext. suffix ext (fixed ext) \<and> (suffix ext name \<longrightarrow> fixed ext = name) \<and>
            (\<not> suffix ext name \<longrightarrow> fixed ext = name @ ext \<and> \<not> suffix (ext @ ext) (fixed ext)))"
proof -
  have "suffix ext (name @ ext)" for ext :: string
    by (simp add: suffix_def)
  then show ?thesis
    by (simp add: open'_def save_as_def save_data_def save_ac_data_def foreign_def Let_def
          endswith_suffix dir_def fixed_def)
qed

theorem extension_appended_once_witness:
  "0 \<le> ncir opened \<and>
   calls (snd (save_data accepting posix_host ''run1'' [] opened))
     = [NL5_SaveData 0 ''/work/run1.nlt''] \<and>
   calls (snd (save_data accepting posix_host ''run1.nlt'' [] opened))
     = [NL5_SaveData 0 ''/work/run1.nlt''] \<and>
   last (calls (snd (open' accepting posix_host ''amp'' [] opened)))
     = NL5_Open ''/work/amp.nl5'' \<and>
   last (calls (snd (open' accepting posix_host ''amp.nl5'' [] opened)))
     = NL5_Open ''/work/amp.nl5''"
  using extension_appended_once
          [where e = accepting and h = posix_host and name = "''run1''" and pth = "[]" and w = opened]
    extension_appended_once
          [where e = accepting and h = posix_host and name = "''run1.nlt''" and pth = "[]" and w = opened]
    extension_appended_once
          [where e = accepting and h = posix_host and name = "''amp''" and pth = "[]" and w = opened]
    extension_appended_once
          [where e = accepting and h = posix_host and name = "''amp.nl5''" and pth = "[]" and w = opened]
  by (simp add: opened_def posix_host_def suffix_to_prefix)

text \<open>
  Claim C6. On an open document, when \<open>NL5_GetInput\<close> resolves the name to a handle,
  \<open>set_input_value(name, v)\<close> calls \<open>NL5_SetInputValue\<close> with the value \<open>0.0\<close>, whatever
  \<open>v\<close> is.
\<close>

theorem set_input_value_passes_zero:
  assumes "0 \<le> ncir w" and "0 \<le> ret (e (calls w) (NL5_GetInput (ncir w) name))"
  shows "calls (snd (set_input_value e name v w)) =
           calls w @ [NL5_GetInput (ncir w) name,
                      NL5_SetInputValue (ncir w) (ret (e (calls w) (NL5_GetInput (ncir w) name))) 0]"
  using assms by (simp add: set_input_value_def foreign_def Let_def)

theorem set_input_value_passes_zero_witness:
  "0 \<le> ncir opened \<and> 0 \<le> ret (accepting (calls opened) (NL5_GetInput (ncir opened) ''Vin'')) \<and>
   calls (snd (set_input_value accepting ''Vin'' 3.3 opened))
     = [NL5_GetInput 0 ''Vin'', NL5_SetInputValue 0 0 0]"
  using set_input_value_passes_zero
          [where w = opened and e = accepting and name = "''Vin''" and v = "3.3"]
  by (simp add: opened_def accepting_def)

text \<open>
  Claim C7. \<open>get_license\<close> raises \<open>NL5LicenseException\<close> exactly when \<open>NL5_GetLicense\<close>
  returns a negative status; otherwise it returns \<open>True\<close> when the status is \<open>0\<close> and
  \<open>False\<close> when it is positive.
\<close>

theorem get_license_outcome:
  "fst (get_license e h name pth w) =
     (let r = ret (e (calls w)
                (NL5_GetLicense (join h (if pth \<noteq> [] then abspath h pth else path w)
                   (if endswith name ''.nll'' then name else name @ ''.nll''))))
      in if r < 0 then Inl (NL5LicenseException ''License does not have DLL option activated.'')
         else Inr (r = 0))"
  by (simp add: get_license_def foreign_def Let_def)

text \<open>
  Claim C8, as stated: under the hypothesis that \<open>NL5_GetDataAt\<close> answers with a negative
  status exactly at the indices outside \<open>0 .. s - 1\<close>, \<open>get_data_at\<close> raises for every
  negative \<open>n\<close>. It does not for a negative \<open>n\<close> below the range of a C int: the thunk
  declares the index as \<open>ct.c_int\<close>, so \<open>n = -4294967296\<close> reaches the library as index
  \<open>0\<close>, and on a trace of three samples \<open>get_data_at\<close> returns the first sample.
\<close>

theorem get_data_at_wrapped_index:
  "fst (get_data_size three_samples ''V(out)'' opened) = Inr 3 \<and>
   (- 4294967296 :: int) < 0 \<and>
   get_data_at three_samples ''V(out)'' (- 4294967296) opened
     = (Inr (0, 5),
        \<lparr>path = ''/lib'', ncir = 0, calls = [NL5_GetTrace 0 ''V(out)'', NL5_GetDataAt 0 0 0]\<rparr>)"
  by (simp add: get_data_size_def get_data_at_def foreign_def three_samples_def opened_def
        c_int_def)

text \<open>
  Claim C8, amended. On an open document, for a trace name that \<open>NL5_GetTrace\<close> resolves
  and whose size, as \<open>get_data_size\<close> returns it, is \<open>s\<close> (a C int), and a library whose
  \<open>NL5_GetDataAt\<close> answers with a negative status exactly at the indices outside
  \<open>0 .. s - 1\<close>: \<open>get_data_at\<close> returns a pair at index \<open>0\<close> and at index \<open>s - 1\<close> (the
  trace holding at least one sample), and raises \<open>NL5ValueException\<close> at index \<open>s\<close> and
  at every negative index in the range of a C int (from \<open>-2147483648\<close> on). In general
  it returns a pair exactly when the index, wrapped into that range, lies in
  \<open>0 .. s - 1\<close>.
\<close>

theorem get_data_at_bounds:
  fixes e name w s
  defines "nt \<equiv> ret (e (calls w) (NL5_GetTrace (ncir w) name))"
  assumes "0 \<le> ncir w" and "0 \<le> nt"
    and "fst (get_data_size e name w) = Inr s" and "s < 2147483648"
    and "\<forall>k. (ret (e (calls w @ [NL5_GetTrace (ncir w) name]) (NL5_GetDataAt (ncir w) nt k)) < 0)
              = (k < 0 \<or> s \<le> k)"
  shows "(0 < s \<longrightarrow> (\<exists>t d. fst (get_data_at e name 0 w) = Inr (t, d)) \<and>
                      (\<exists>t d. fst (get_data_at e name (s - 1) w) = Inr (t, d))) \<and>
         (\<exists>m. fst (get_data_at e name s w) = Inl (NL5ValueException m)) \<and>
         (\<forall>n. - 2147483648 \<le> n \<and> n < 0 \<longrightarrow>
              (\<exists>m. fst (get_data_at e name n w) = Inl (NL5ValueException m))) \<and>
         (\<forall>n. (\<exists>t d. fst (get_data_at e name n w) = Inr (t, d)) = (0 \<le> c_int n \<and> c_int n < s))"
proof -
  have size: "0 \<le> s"
    using assms by (auto simp: get_data_size_def foreign_def split: if_splits)
  have at: "fst (get_data_at e name n w) =
              (if c_int n < 0 \<or> s \<le> c_int n
               then Inl (NL5ValueException
                          ''Index is less than zero, or greater or equal to data size.'')
               else Inr (out1 (e (calls w @ [NL5_GetTrace (ncir w) name])
                                 (NL5_GetDataAt (ncir w) nt (c_int n))),
                         out2 (e (calls w @ [NL5_GetTrace (ncir w) name])
                                 (NL5_GetDataAt (ncir w) nt (c_int n)))))" for n
    using assms by (simp add: get_data_at_def foreign_def)
  have zero: "c_int 0 = 0"
    by (simp add: c_int_def)
  have last: "c_int (s - 1) = s - 1" if "0 < s"
    using that \<open>s < 2147483648\<close> by (simp add: c_int_in_range)
  have top: "c_int s = s"
    using size \<open>s < 2147483648\<close> by (simp add: c_int_in_range)
  have neg: "c_int n = n" if "- 2147483648 \<le> n" and "n < 0" for n
    using that by (simp add: c_int_in_range)
  have "0 < s \<longrightarrow> (\<exists>t d. fst (get_data_at e name 0 w) = Inr (t, d)) \<and>
                      (\<exists>t d. fst (get_data_at e name (s - 1) w) = Inr (t, d))"
    by (simp add: at zero last)
  moreover have "\<exists>m. fst (get_data_at e name s w) = Inl (NL5ValueException m)"
    by (simp add: at top)
  moreover have "\<forall>n. - 2147483648 \<le> n \<and> n < 0 \<longrightarrow>
                   (\<exists>m. fst (get_data_at e name n w) = Inl (NL5ValueException m))"
    by (simp add: at neg)
  moreover have "\<forall>n. (\<exists>t d. fst (get_data_at e name n w) = Inr (t, d))
                   = (0 \<le> c_int n \<and> c_int n < s)"
    by (auto simp: at)
  ultimately show ?thesis by blast
qed

theorem get_data_at_bounds_witness:
  "0 \<le> ncir opened \<and>
   fst (get_data_size three_samples ''V(out)'' opened) = Inr 3 \<and>
   (\<exists>t d. fst (get_data_at three_samples ''V(out)'' 0 opened) = Inr (t, d)) \<and>
   (\<exists>t d. fst (get_data_at three_samples ''V(out)'' (3 - 1) opened) = Inr (t, d)) \<and>
   (\<exists>m. fst (get_data_at three_samples ''V(out)'' 3 opened) = Inl (NL5ValueException m)) \<and>
   (\<exists>m. fst (get_data_at three_samples ''V(out)'' (- 1) opened) = Inl (NL5ValueException m))"
proof -
  have a: "0 \<le> ncir opened"
    by (simp add: opened_def)
  have b: "0 \<le> ret (three_samples (calls opened) (NL5_GetTrace (ncir opened) ''V(out)''))"
    by (simp add: three_samples_def)
  have c: "fst (get_data_size three_samples ''V(out)'' opened) = Inr 3"
    by (simp add: get_data_size_def foreign_def three_samples_def opened_def)
  have c': "(3::int) < 2147483648"
    by simp
  have d: "\<forall>k. (ret (three_samples (calls opened @ [NL5_GetTrace (ncir opened) ''V(out)''])
                  (NL5_GetDataAt (ncir opened)
                     (ret (three_samples (calls opened) (NL5_GetTrace (ncir opened) ''V(out)''))) k)) < 0)
              = (k < 0 \<or> 3 \<le> k)"
    by (auto simp: three_samples_def)
  have e: "- 2147483648 \<le> (- 1 :: int) \<and> (- 1 :: int) < 0"
    by simp
  from get_data_at_bounds [OF a b c c' d] a c e show ?thesis
    by auto
qed

text \<open>
  Claim C9, as stated: for a negative argument \<open>simulate\<close> behaves identically to the call
  with the argument's magnitude. It does not when the library rejects the call: the
  message of the \<open>NL5StartException\<close> is built from the argument as given, so
  \<open>simulate(-1.0)\<close> and \<open>simulate(1.0)\<close> raise exceptions with different messages.
\<close>

theorem simulate_sign_in_message:
  "simulate rejecting posix_host (- 1) opened
     = (Inl (NL5StartException ''Error trying to start simulation with interval=-1.0.''),
        \<lparr>path = ''/lib'', ncir = 0, calls = [NL5_Simulate 0 1]\<rparr>) \<and>
   simulate rejecting posix_host \<bar>- 1\<bar> opened
     = (Inl (NL5StartException ''Error trying to start simulation with interval=1.0.''),
        \<lparr>path = ''/lib'', ncir = 0, calls = [NL5_Simulate 0 1]\<rparr>) \<and>
   simulate rejecting posix_host (- 1) opened \<noteq> simulate rejecting posix_host \<bar>- 1\<bar> opened"
  by (simp add: simulate_def rejecting_def posix_host_def opened_def foreign_def)

text \<open>
  Claim C9, amended. \<open>simulate\<close>, \<open>simulate_interval\<close>, \<open>set_step\<close> and \<open>get_data\<close>
  pass the absolute value of their numeric argument to the foreign entry point;
  \<open>set_timeout\<close> passes the absolute value as a C int, which is the absolute value itself
  whenever that is below \<open>2147483648\<close>, and otherwise its wrapped image.
  \<open>set_step\<close>, \<open>set_timeout\<close> and \<open>get_data\<close> behave identically on an argument
  and on its magnitude. \<open>simulate\<close> and \<open>simulate_interval\<close> leave the same client behind
  and have the same outcome as on the magnitude, except that the message of their
  \<open>NL5StartException\<close> prints the argument as it was given, sign included.
\<close>

theorem magnitude_is_passed:
  "set_step e x w = set_step e \<bar>x\<bar> w \<and>
   set_timeout e t w = set_timeout e \<bar>t\<bar> w \<and>
   get_data e h name x w = get_data e h name \<bar>x\<bar> w \<and>
   snd (simulate e h x w) = snd (simulate e h \<bar>x\<bar> w) \<and>
   snd (simulate_interval e h x w) = snd (simulate_interval e h \<bar>x\<bar> w) \<and>
   fst (simulate e h x w) =
     (case fst (simulate e h \<bar>x\<bar> w) of
        Inl (NL5StartException m) \<Rightarrow>
          Inl (NL5StartException
                 (''Error trying to start simulation with interval='' @ repr h x @ ''.''))
      | y \<Rightarrow> y) \<and>
   fst (simulate_interval e h x w) =
     (case fst (simulate_interval e h \<bar>x\<bar> w) of
        Inl (NL5StartException m) \<Rightarrow>
          Inl (NL5StartException
                 (''Error trying to start simulation with interval='' @ repr h x @ ''.''))
      | y \<Rightarrow> y) \<and>
   (0 \<le> ncir w \<longrightarrow>
      calls (snd (set_step e x w)) = calls w @ [NL5_SetStep (ncir w) \<bar>x\<bar>] \<and>
      calls (snd (set_timeout e t w)) = calls w @ [NL5_SetTimeout (ncir w) (c_int \<bar>t\<bar>)] \<and>
      (\<bar>t\<bar> < 2147483648 \<longrightarrow>
         calls (snd (set_timeout e t w)) = calls w @ [NL5_SetTimeout (ncir w) \<bar>t\<bar>]) \<and>
      calls (snd (simulate e h x w)) = calls w @ [NL5_Simulate (ncir w) \<bar>x\<bar>] \<and>
      calls (snd (simulate_interval e h x w)) = calls w @ [NL5_SimulateInterval (ncir w) \<bar>x\<bar>] \<and>
      (let nt = ret (e (calls w) (NL5_GetTrace (ncir w) name))
       in 0 \<le> nt \<longrightarrow>
          calls (snd (get_data e h name x w))
            = calls w @ [NL5_GetTrace (ncir w) name, NL5_GetData (ncir w) nt \<bar>x\<bar>]))"
proof -
  have "\<bar>t\<bar> < 2147483648 \<Longrightarrow> c_int \<bar>t\<bar> = \<bar>t\<bar>"
    by (simp add: c_int_in_range)
  then show ?thesis
    by (simp add: set_step_def set_timeout_def get_data_def simulate_def simulate_interval_def
          foreign_def Let_def)
qed

theorem magnitude_is_passed_witness:
  "0 \<le> ncir opened \<and>
   calls (snd (simulate accepting posix_host (- 1) opened))
     = calls opened @ [NL5_Simulate (ncir opened) \<bar>- 1\<bar>] \<and>
   \<bar>- 5 :: int\<bar> < 2147483648 \<and>
   calls (snd (set_timeout accepting (- 5) opened))
     = calls opened @ [NL5_SetTimeout (ncir opened) \<bar>- 5\<bar>]"
proof -
  have "0 \<le> ncir opened" by (simp add: opened_def)
  moreover have "\<bar>- 5 :: int\<bar> < 2147483648" by simp
  moreover note magnitude_is_passed
         [where e = accepting and x = "- 1" and w = opened and t = "- 5" and h = posix_host
            and name = "''V(out)''"]
  ultimately show ?thesis by blast
qed

text \<open>
  Claim C10, as stated: whenever a method fails on a negative status, the message names
  the parameter, trace or file concerned. It fails for \<open>open\<close>: when \<open>NL5_Open\<close> rejects
  the file, the message is the fixed text \<open>Error opening NL5 circuit\<close>, which does not
  contain the file name.
\<close>

theorem open_message_lacks_name:
  "fst (perform rejecting posix_host (Open ''amp'' []) opened)
     = Some (NL5OpenException ''Error opening NL5 circuit'') \<and>
   ret (rejecting [NL5_Close 0] (NL5_Open ''/work/amp.nl5'')) < 0 \<and>
   calls (snd (perform rejecting posix_host (Open ''amp'' []) opened))
     = [NL5_Close 0, NL5_Open ''/work/amp.nl5''] \<and>
   \<not> sublist ''amp'' ''Error opening NL5 circuit''"
  by (simp add: opened_def rejecting_def open'_def foreign_def raised_def posix_host_def
        endswith_def sublist_code)

text \<open>
  Claim C10, amended. On an open document, the message of the exception contains the
  name given to the method (a parameter, trace, input or output name, or the file name
  of \<open>save_as\<close>) in these cases: whenever the exception is an \<open>NL5ParamException\<close> or
  an \<open>NL5TraceException\<close> (the library could not resolve the name), and for every
  exception of the module raised by \<open>save_as\<close>, \<open>get_value\<close>, \<open>set_value\<close>, \<open>get_text\<close>,
  \<open>set_text\<close>, the four parameter accessors, the five \<open>add_..._trace\<close> methods,
  \<open>delete_trace\<close>, the input and output accessors, \<open>get_data_size\<close> and
  \<open>get_ac_data_size\<close>. The other failures (\<open>open\<close>, \<open>save_data\<close>, \<open>save_ac_data\<close>,
  \<open>get_license\<close>, reading a data point) carry a message without the name.
\<close>

theorem message_names_item:
  assumes "0 \<le> ncir w" and "named_item r = Some n" and "fst (perform e h r w) = Some ex"
    and "message ex = Some m" and "names_throughout r \<or> lookup_failure ex"
  shows "sublist n m"
  using assms
  by (cases r)
     (auto simp: fst_raised method_defs foreign_def Let_def
           split: if_splits prod.splits sum.splits
           dest: timedata_loop_raises freqmagphase_loop_raises_pair data_slice_loop_raises
           intro!: sublist_after)

theorem message_names_item_witness:
  "0 \<le> ncir opened \<and> named_item (Get_value ''R1.R'') = Some ''R1.R'' \<and>
   fst (perform rejecting posix_host (Get_value ''R1.R'') opened)
     = Some (NL5ValueException ''Parameter R1.R not found or parameter type not supported.'') \<and>
   names_throughout (Get_value ''R1.R'') \<and>
   sublist ''R1.R'' ''Parameter R1.R not found or parameter type not supported.''"
  using message_names_item
          [where w = opened and r = "Get_value ''R1.R''" and n = "''R1.R''" and e = rejecting
             and h = posix_host
             and ex = "NL5ValueException ''Parameter R1.R not found or parameter type not supported.''"
             and m = "''Parameter R1.R not found or parameter type not supported.''"]
  by (simp add: opened_def rejecting_def get_value_def foreign_def raised_def)

end
